theory Spec2Isabelle
  imports Main "HOL-Library.Word"
begin

unbundle bit_operations_syntax

section \<open>Data model of \<^verbatim>\<open>kodo/platform/linux/window.cc\<close>\<close>

text \<open>
  \<^verbatim>\<open>X11Window::Impl\<close> is a class whose methods mutate its fields and call three
  collaborators that are not part of the file: Xlib (through the \<^verbatim>\<open>Display*\<close>), the
  \<^verbatim>\<open>RunLoop\<close> singleton and the window controller. The model is a shallow embedding with
  explicit state passing:
  \<^item> the fields are the record \<open>Impl\<close>; a nullable pointer is an \<open>option\<close>;
  \<^item> every call to a collaborator is appended, in program order, to a list of \<open>action\<close>s;
  \<^item> whatever a collaborator answers is read from the record \<open>Env\<close>, about which nothing
    is assumed;
  \<^item> \<^verbatim>\<open>exit(-1)\<close>, a failing \<^verbatim>\<open>assert\<close> and the dereference of a null pointer end the
    method with a \<open>failure\<close>; the state and the actions up to that point are kept.
  Callbacks into the controller are taken to be opaque: they do not call back into the
  window while a handler runs.
\<close>

type_synonym Window = "64 word"
type_synonym Atom = "64 word"
type_synonym long = "64 word"
type_synonym Display = nat
type_synonym GC = nat
type_synonym WindowController = nat
type_synonym WindowClosedFunc = nat
type_synonym IEventHandler = nat
type_synonym ITimerHandler = nat
type_synonym FileDescriptor = int
type_synonym TimerInterval = "64 word"
type_synonym TimerID = nat

text \<open>Constants of \<^verbatim>\<open>X11/X.h\<close> that the file uses by name.\<close>

definition None_atom :: Atom where
  "None_atom = 0"

definition CurrentTime :: long where
  "CurrentTime = 0"

definition Success :: int where
  "Success = 0"

datatype event_mask =
    KeyPressMask | ButtonPressMask | ButtonReleaseMask | ButtonMotionMask
  | ExposureMask | StructureNotifyMask | SubstructureNotifyMask
  | FocusChangeMask | PropertyChangeMask

text \<open>An event mask is the list of the masks that are or-ed together.\<close>

definition NoEventMask :: "event_mask list" where
  "NoEventMask = []"

datatype size_hint_flag = PMinSize | PMaxSize

text \<open>The XEmbed message opcodes and the flag, as the file defines them.\<close>

definition XEMBED_EMBEDDED_NOTIFY :: long where
  "XEMBED_EMBEDDED_NOTIFY = 0"

definition XEMBED_WINDOW_ACTIVATE :: long where
  "XEMBED_WINDOW_ACTIVATE = 1"

definition XEMBED_WINDOW_DEACTIVATE :: long where
  "XEMBED_WINDOW_DEACTIVATE = 2"

definition XEMBED_REQUEST_FOCUS :: long where
  "XEMBED_REQUEST_FOCUS = 3"

definition XEMBED_FOCUS_IN :: long where
  "XEMBED_FOCUS_IN = 4"

definition XEMBED_FOCUS_OUT :: long where
  "XEMBED_FOCUS_OUT = 5"

definition XEMBED_MAPPED :: "32 word" where
  "XEMBED_MAPPED = push_bit 0 1"

text \<open>\<^verbatim>\<open>tresult\<close> codes of the plug-in SDK; the file only returns and never computes them.\<close>

datatype tresult =
  kNoInterface | kResultTrue | kResultFalse | kInvalidArgument | kNotImplemented

record Size =
  width :: int
  height :: int

record XEmbedInfo =
  version :: "32 word"
  flags :: "32 word"

record XClientMessageEvent =
  xclient_window :: Window
  message_type :: Atom
  format :: int
  data_l0 :: long
  data_l1 :: long
  data_l2 :: long
  data_l3 :: long
  data_l4 :: long

text \<open>
  \<^verbatim>\<open>XEvent\<close> is a tagged union; each constructor carries the members the handlers read.
  For \<open>MapNotify\<close> the handler reads \<^verbatim>\<open>xany.window\<close>, for \<open>UnmapNotify\<close>
  \<^verbatim>\<open>xunmap.window\<close>, for \<open>ConfigureNotify\<close> \<^verbatim>\<open>xconfigure.window\<close>, for
  \<open>CreateNotify\<close> \<^verbatim>\<open>xcreatewindow.parent\<close> and \<^verbatim>\<open>xcreatewindow.window\<close>. Every
  event type without a \<^verbatim>\<open>case\<close> label is \<open>OtherEvent\<close> with its type code.
\<close>

datatype XEvent =
    Expose (xexpose_count: int)
  | ConfigureNotify (xconfigure_window: Window) (xconfigure_width: int) (xconfigure_height: int)
  | MapNotify (xany_window: Window)
  | UnmapNotify (xunmap_window: Window)
  | DestroyNotify
  | ClientMessage (xclient: XClientMessageEvent)
  | FocusIn
  | FocusOut
  | ResizeRequest (xresizerequest_window: Window) (xresizerequest_width: int)
      (xresizerequest_height: int)
  | PropertyNotify (xproperty_window: Window) (xproperty_atom: Atom)
  | CreateNotify (xcreatewindow_parent: Window) (xcreatewindow_window: Window)
  | OtherEvent int

text \<open>The two lambdas that \<^verbatim>\<open>registerWindow\<close> is given.\<close>

datatype callback = MainWindowCb | PlugCb

record XSizeHints =
  hint_flags :: "size_hint_flag list"
  min_width :: int
  min_height :: int
  max_width :: int
  max_height :: int

text \<open>
  The Xlib requests. Window attributes, visuals and pixel values are left out of the
  arguments. \<open>XReparentWindow\<close> is the Xlib request that changes a window's parent; it
  is listed so that traces can be inspected for it.
\<close>

datatype xcall =
    XInternAtom string bool
  | XCreateColormap Window
  | XCreateWindow Window int int int int nat
  | XFlush
  | XResizeWindow Window int int
  | XSelectInput Window "event_mask list"
  | XSetWMNormalHints Window XSizeHints
  | XStoreName Window string
  | XSetWMIconName Window string
  | XSetWMProtocols Window "Atom list"
  | XCreateGC Window
  | XSetForeground GC
  | XSetBackground GC
  | XMapWindow Window
  | XUnmapWindow Window
  | XFreeGC GC
  | XDestroyWindow Window
  | XClearWindow Window
  | XFillRectangle Window GC int int int int
  | XGetWindowProperty Window Atom
  | XGetAtomName Atom
  | XSendEvent Window bool "event_mask list" XClientMessageEvent
  | XSync bool
  | XReparentWindow Window Window

datatype runloop_call =
    registerWindow Window callback
  | registerFileDescriptor FileDescriptor IEventHandler
  | unregisterFileDescriptor FileDescriptor
  | registerTimer_rl TimerInterval ITimerHandler
  | unregisterTimer_rl TimerID

datatype controller_call =
    constrainSize Size
  | onResize Size
  | onShow
  | onClose_ctl

datatype action =
    Xlib "Display option" xcall
  | RunLoop runloop_call
  | Controller controller_call
  | WindowClosed
  | StdOut string
  | StdErr string

datatype failure = Exit int | NullPointer | AssertFailed

text \<open>What the collaborators answer.\<close>

record Env =
  XInternAtom_ret :: "string \<Rightarrow> bool \<Rightarrow> Atom"
  XMatchVisualInfo_ret :: bool
  RootWindow_ret :: Window
  DisplayWidth_ret :: int
  DisplayHeight_ret :: int
  XCreateWindow_ret :: "Window \<Rightarrow> Window"
  XCreateGC_ret :: GC
  XGetWindowProperty_ret :: "Window \<Rightarrow> Atom \<Rightarrow> int \<times> XEmbedInfo option"
  XGetAtomName_ret :: "Atom \<Rightarrow> string"
  constrainSize_ret :: "Size \<Rightarrow> Size"
  registerTimer_ret :: "TimerInterval \<Rightarrow> TimerID"

text \<open>
  The fields of \<^verbatim>\<open>X11Window::Impl\<close>. The two \<^verbatim>\<open>std::unordered_map\<close>s are association
  lists in iteration order. The back pointer \<^verbatim>\<open>x11Window\<close> is set once by the constructor
  and is left out.
\<close>

record Impl =
  controller :: "WindowController option"
  windowClosedFunc :: "WindowClosedFunc option"
  xDisplay :: "Display option"
  xembedInfo :: "XEmbedInfo option"
  xWindow :: Window
  plugParentWindow :: Window
  plugWindow :: Window
  xGraphicContext :: GC
  xEmbedInfoAtom :: Atom
  xEmbedAtom :: Atom
  isMapped :: bool
  mCurrentSize :: Size
  eventHandlers :: "(FileDescriptor \<times> IEventHandler) list"
  timerHandlers :: "(TimerID \<times> ITimerHandler) list"

text \<open>The constructor: every field has its default member initialiser.\<close>

definition Impl_new :: Impl where
  "Impl_new =
     \<lparr>controller = None, windowClosedFunc = None, xDisplay = None, xembedInfo = None,
      xWindow = 0, plugParentWindow = 0, plugWindow = 0, xGraphicContext = 0,
      xEmbedInfoAtom = None_atom, xEmbedAtom = None_atom, isMapped = False,
      mCurrentSize = \<lparr>width = 0, height = 0\<rparr>, eventHandlers = [], timerHandlers = []\<rparr>"

type_synonym 'r outcome = "(failure + 'r) \<times> Impl \<times> action list"

section \<open>The functions of the file\<close>

definition send_xembed_message ::
  "Display option \<Rightarrow> Window \<Rightarrow> Atom \<Rightarrow> long \<Rightarrow> long \<Rightarrow> long \<Rightarrow> long \<Rightarrow> action list" where
  "send_xembed_message dpy w messageType message detail data1 data2 =
     (let ev = \<lparr>xclient_window = w, message_type = messageType, format = 32,
                data_l0 = CurrentTime, data_l1 = message, data_l2 = detail,
                data_l3 = data1, data_l4 = data2\<rparr>
      in [Xlib dpy (XSendEvent w False NoEventMask ev), Xlib dpy (XSync False)])"

definition resize :: "Impl \<Rightarrow> Size \<Rightarrow> bool \<Rightarrow> Impl \<times> action list" where
  "resize s newSize force =
     (if \<not> force \<and> mCurrentSize s = newSize then (s, [])
      else
        ((s\<lparr>mCurrentSize := newSize\<rparr>),
         (if xWindow s \<noteq> 0
          then [Xlib (xDisplay s) (XResizeWindow (xWindow s) (width newSize) (height newSize))]
          else []) @
         (if plugParentWindow s \<noteq> 0
          then [Xlib (xDisplay s)
                  (XResizeWindow (plugParentWindow s) (width newSize) (height newSize))]
          else [])))"

definition onClose :: "Impl \<Rightarrow> Impl \<times> action list" where
  "onClose s =
     (s\<lparr>xDisplay := None, xWindow := 0, isMapped := False\<rparr>,
      [Xlib (xDisplay s) (XFreeGC (xGraphicContext s)),
       Xlib (xDisplay s) (XDestroyWindow (xWindow s))] @
      (if windowClosedFunc s \<noteq> None then [WindowClosed] else []))"

definition getXEmbedInfo :: "Env \<Rightarrow> Impl \<Rightarrow> XEmbedInfo option \<times> Impl \<times> action list" where
  "getXEmbedInfo env s =
     (let (s1, tr1) =
            (if xEmbedInfoAtom s = None_atom
             then (s\<lparr>xEmbedInfoAtom := XInternAtom_ret env ''_XEMBED_INFO'' True\<rparr>,
                   [Xlib (xDisplay s) (XInternAtom ''_XEMBED_INFO'' True)])
             else (s, []));
          (err, prop) = XGetWindowProperty_ret env (plugWindow s1) (xEmbedInfoAtom s1);
          tr2 = tr1 @ [Xlib (xDisplay s1) (XGetWindowProperty (plugWindow s1) (xEmbedInfoAtom s1))]
      in if err \<noteq> Success then (None, s1, tr2) else (prop, s1, tr2))"

definition handleMainWindowEvent :: "Env \<Rightarrow> Impl \<Rightarrow> XEvent \<Rightarrow> bool outcome" where
  "handleMainWindowEvent env s event =
     (case event of
        Expose count \<Rightarrow>
          (Inr True, s,
           if count = 0
           then [Xlib (xDisplay s) (XClearWindow (xWindow s)),
                 Xlib (xDisplay s)
                   (XFillRectangle (xWindow s) (xGraphicContext s) 0 0
                      (width (mCurrentSize s)) (height (mCurrentSize s)))]
           else [])
      | ConfigureNotify w cw ch \<Rightarrow>
          if w \<noteq> xWindow s then (Inr False, s, [])
          else
            (let size = \<lparr>width = cw, height = ch\<rparr> in
             if mCurrentSize s \<noteq> size then
               (case controller s of
                  None \<Rightarrow> (Inl NullPointer, s, [])
                | Some c \<Rightarrow>
                    (let constraintSize = constrainSize_ret env size;
                         tr1 = [Controller (constrainSize size)];
                         (s1, tr2) =
                           (if constraintSize \<noteq> mCurrentSize s
                            then (s\<lparr>mCurrentSize := size\<rparr>, tr1 @ [Controller (onResize size)])
                            else (s, tr1));
                         (s2, tr3) =
                           (if constraintSize \<noteq> size
                            then (let (s', tr') = resize s1 constraintSize True
                                  in (s', tr2 @ tr'))
                            else (s1,
                                  tr2 @
                                  (if plugParentWindow s1 \<noteq> 0
                                   then [Xlib (xDisplay s1)
                                           (XResizeWindow (plugParentWindow s1)
                                              (width size) (height size))]
                                   else [])))
                     in (Inr True, s2, tr3)))
             else (Inr True, s, []))
      | MapNotify w \<Rightarrow>
          if w = xWindow s \<and> \<not> isMapped s then
            (case controller s of
               None \<Rightarrow> (Inl NullPointer, s, [])
             | Some c \<Rightarrow> (Inr True, s\<lparr>isMapped := True\<rparr>, [Controller onShow]))
          else (Inr False, s, [])
      | UnmapNotify w \<Rightarrow>
          if w = xWindow s then
            (case controller s of
               None \<Rightarrow> (Inl NullPointer, s, [])
             | Some c \<Rightarrow>
                 (let (s', tr') = onClose s in (Inr True, s', Controller onClose_ctl # tr')))
          else (Inr False, s, [])
      | DestroyNotify \<Rightarrow> (Inr False, s, [])
      | ClientMessage m \<Rightarrow>
          if xclient_window m = xWindow s then
            (case controller s of
               None \<Rightarrow> (Inl NullPointer, s, [])
             | Some c \<Rightarrow>
                 (let (s', tr') = onClose s in (Inr True, s', Controller onClose_ctl # tr')))
          else (Inr False, s, [])
      | FocusIn \<Rightarrow>
          (case xembedInfo s of
             Some info \<Rightarrow>
               (Inr False, s,
                send_xembed_message (xDisplay s) (plugWindow s) (xEmbedAtom s)
                  XEMBED_WINDOW_ACTIVATE 0 (plugParentWindow s) (ucast (version info)))
           | None \<Rightarrow> (Inr False, s, []))
      | FocusOut \<Rightarrow>
          (case xembedInfo s of
             Some info \<Rightarrow>
               (Inr False, s,
                send_xembed_message (xDisplay s) (plugWindow s) (xEmbedAtom s)
                  XEMBED_WINDOW_DEACTIVATE 0 (plugParentWindow s) (ucast (version info)))
           | None \<Rightarrow> (Inr False, s, []))
      | ResizeRequest w rw rh \<Rightarrow>
          if w = xWindow s then
            (let request = \<lparr>width = rw, height = rh\<rparr> in
             if mCurrentSize s \<noteq> request then
               (case controller s of
                  None \<Rightarrow> (Inl NullPointer, s, [])
                | Some c \<Rightarrow>
                    (let constraintSize = constrainSize_ret env request;
                         (s', tr') = resize s constraintSize True
                     in (Inr True, s', Controller (constrainSize request) # tr')))
             else (Inr True, s, []))
          else (Inr False, s, [])
      | PropertyNotify w a \<Rightarrow> (Inr False, s, [])
      | CreateNotify p w \<Rightarrow> (Inr False, s, [])
      | OtherEvent ty \<Rightarrow> (Inr False, s, []))"

text \<open>
  The \<open>CreateNotify\<close> case in program order: the parent check, the assignment of
  \<^verbatim>\<open>plugWindow\<close>, \<^verbatim>\<open>getXEmbedInfo\<close>, the two \<^verbatim>\<open>exit(-1)\<close> guards, the registration
  with the run loop, the lookup of the \<^verbatim>\<open>_XEMBED\<close> atom with its \<^verbatim>\<open>assert\<close>, and the
  messages. In the \<open>ClientMessage\<close> case \<^verbatim>\<open>xembedInfo->version\<close> is read without a null
  check. \<^verbatim>\<open>XGetAtomName\<close> is taken to answer with a string.
\<close>

definition handlePlugEvent :: "Env \<Rightarrow> Impl \<Rightarrow> XEvent \<Rightarrow> bool outcome" where
  "handlePlugEvent env s event =
     (case event of
        ClientMessage m \<Rightarrow>
          (let tr0 = [Xlib (xDisplay s) (XGetAtomName (message_type m)),
                      StdOut (XGetAtomName_ret env (message_type m))] in
           if message_type m = xEmbedAtom s then
             (if data_l1 m = XEMBED_REQUEST_FOCUS then
                (case xembedInfo s of
                   None \<Rightarrow> (Inl NullPointer, s, tr0)
                 | Some info \<Rightarrow>
                     (Inr False, s,
                      tr0 @
                      send_xembed_message (xDisplay s) (plugWindow s) (xEmbedAtom s)
                        XEMBED_FOCUS_IN 0 (plugParentWindow s) (ucast (version info))))
              else (Inr False, s, tr0))
           else (Inr False, s, tr0))
      | PropertyNotify w a \<Rightarrow>
          (Inr False, s,
           [Xlib (xDisplay s) (XGetAtomName a), StdOut (XGetAtomName_ret env a)])
      | CreateNotify parent w \<Rightarrow>
          if parent \<noteq> plugParentWindow s then (Inr True, s, [])
          else
            (let s1 = s\<lparr>plugWindow := w\<rparr>;
                 (info_opt, s2, tr1) = getXEmbedInfo env s1;
                 s3 = s2\<lparr>xembedInfo := info_opt\<rparr>
             in case info_opt of
                  None \<Rightarrow>
                    (Inl (Exit (- 1)), s3,
                     tr1 @ [StdErr ''XGetWindowProperty for _XEMBED_INFO failed''])
                | Some info \<Rightarrow>
                    if flags info AND XEMBED_MAPPED \<noteq> 0 then
                      (Inl (Exit (- 1)), s3, tr1 @ [StdErr ''Window already mapped error''])
                    else
                      (let tr2 = tr1 @ [RunLoop (registerWindow (plugWindow s3) PlugCb)];
                           (s4, tr3) =
                             (if xEmbedAtom s3 = None_atom
                              then (s3\<lparr>xEmbedAtom := XInternAtom_ret env ''_XEMBED'' True\<rparr>,
                                    tr2 @ [Xlib (xDisplay s3) (XInternAtom ''_XEMBED'' True)])
                              else (s3, tr2))
                       in if xEmbedAtom s4 = None_atom then (Inl AssertFailed, s4, tr3)
                          else
                            (Inr True, s4,
                             tr3 @
                             send_xembed_message (xDisplay s4) (plugWindow s4) (xEmbedAtom s4)
                               XEMBED_EMBEDDED_NOTIFY 0 (plugParentWindow s4)
                               (ucast (version info)) @
                             [Xlib (xDisplay s4) (XMapWindow (plugWindow s4)),
                              Xlib (xDisplay s4)
                                (XResizeWindow (plugWindow s4) (width (mCurrentSize s4))
                                   (height (mCurrentSize s4)))] @
                             send_xembed_message (xDisplay s4) (plugWindow s4) (xEmbedAtom s4)
                               XEMBED_WINDOW_ACTIVATE 0 (plugParentWindow s4)
                               (ucast (version info)) @
                             send_xembed_message (xDisplay s4) (plugWindow s4) (xEmbedAtom s4)
                               XEMBED_FOCUS_IN 0 (plugParentWindow s4)
                               (ucast (version info)) @
                             [Xlib (xDisplay s4) (XSync False)])))
      | Expose count \<Rightarrow> (Inr False, s, [])
      | ConfigureNotify w cw ch \<Rightarrow> (Inr False, s, [])
      | MapNotify w \<Rightarrow> (Inr False, s, [])
      | UnmapNotify w \<Rightarrow> (Inr False, s, [])
      | DestroyNotify \<Rightarrow> (Inr False, s, [])
      | FocusIn \<Rightarrow> (Inr False, s, [])
      | FocusOut \<Rightarrow> (Inr False, s, [])
      | ResizeRequest w rw rh \<Rightarrow> (Inr False, s, [])
      | OtherEvent ty \<Rightarrow> (Inr False, s, []))"

text \<open>
  \<^verbatim>\<open>init\<close>: the atom lookup comes first and is the only \<^verbatim>\<open>return false\<close>; a failing
  \<^verbatim>\<open>XMatchVisualInfo\<close> ends the process with \<^verbatim>\<open>exit(-1)\<close>. The trace lists the
  requests in program order; the display macros, \<^verbatim>\<open>XAllocSizeHints\<close>, \<^verbatim>\<open>XFree\<close> and
  \<^verbatim>\<open>XStringListToTextProperty\<close> only prepare arguments and are not listed.
\<close>

definition init ::
  "Env \<Rightarrow> Impl \<Rightarrow> string \<Rightarrow> Size \<Rightarrow> bool \<Rightarrow> WindowController option \<Rightarrow> Display option \<Rightarrow>
   WindowClosedFunc option \<Rightarrow> bool outcome" where
  "init env s name size' resizeable ctl display closedFunc =
     (let s1 = s\<lparr>windowClosedFunc := closedFunc, controller := ctl, xDisplay := display\<rparr>;
          s2 = s1\<lparr>xEmbedInfoAtom := XInternAtom_ret env ''_XEMBED_INFO'' True\<rparr>;
          tr1 = [Xlib (xDisplay s2) (XInternAtom ''_XEMBED_INFO'' True)]
      in if xEmbedInfoAtom s2 = None_atom
         then (Inr False, s2, tr1 @ [StdErr ''_XEMBED_INFO does not exist''])
         else if \<not> XMatchVisualInfo_ret env then (Inl (Exit (- 1)), s2, tr1)
         else
           (let border_width = 1;
                s3 = s2\<lparr>xWindow := XCreateWindow_ret env (RootWindow_ret env)\<rparr>;
                tr2 = tr1 @
                  [Xlib (xDisplay s3) (XCreateColormap (RootWindow_ret env)),
                   Xlib (xDisplay s3)
                     (XCreateWindow (RootWindow_ret env) 0 0 (DisplayWidth_ret env)
                        (DisplayHeight_ret env) border_width),
                   Xlib (xDisplay s3) XFlush];
                (s4, tr_resize) = resize s3 size' True;
                sizeHints =
                  (if \<not> resizeable
                   then \<lparr>hint_flags = [PMinSize, PMaxSize],
                         min_width = width size', min_height = height size',
                         max_width = width size', max_height = height size'\<rparr>
                   else \<lparr>hint_flags = [PMinSize], min_width = 80, min_height = 80,
                         max_width = 0, max_height = 0\<rparr>);
                wm_delete_window = XInternAtom_ret env ''WM_DELETE_WINDOW'' False;
                tr3 = tr2 @ tr_resize @
                  [Xlib (xDisplay s4)
                     (XSelectInput (xWindow s4)
                        [ExposureMask, StructureNotifyMask, SubstructureNotifyMask,
                         FocusChangeMask]),
                   Xlib (xDisplay s4) (XSetWMNormalHints (xWindow s4) sizeHints),
                   Xlib (xDisplay s4) (XStoreName (xWindow s4) name),
                   Xlib (xDisplay s4) (XSetWMIconName (xWindow s4) name),
                   Xlib (xDisplay s4) (XInternAtom ''WM_DELETE_WINDOW'' False),
                   Xlib (xDisplay s4) (XSetWMProtocols (xWindow s4) [wm_delete_window]),
                   Xlib (xDisplay s4) (XCreateGC (xWindow s4))];
                s5 = s4\<lparr>xGraphicContext := XCreateGC_ret env\<rparr>;
                tr4 = tr3 @
                  [Xlib (xDisplay s5) (XSetForeground (xGraphicContext s5)),
                   Xlib (xDisplay s5) (XSetBackground (xGraphicContext s5)),
                   Xlib (xDisplay s5)
                     (XCreateWindow (xWindow s5) 0 0 (width size') (height size') border_width)];
                s6 = s5\<lparr>plugParentWindow := XCreateWindow_ret env (xWindow s5)\<rparr>;
                tr5 = tr4 @
                  [Xlib (xDisplay s6)
                     (XSelectInput (plugParentWindow s6)
                        [SubstructureNotifyMask, PropertyChangeMask]),
                   Xlib (xDisplay s6) (XMapWindow (plugParentWindow s6)),
                   RunLoop (registerWindow (plugParentWindow s6) PlugCb),
                   RunLoop (registerWindow (xWindow s6) MainWindowCb)]
            in (Inr True, s6, tr5)))"

text \<open>
  \<^verbatim>\<open>X11Window::make\<close> builds a fresh window and returns it when \<^verbatim>\<open>init\<close> returns true,
  \<^verbatim>\<open>nullptr\<close> (here \<open>None\<close>) when it returns false.
\<close>

definition make ::
  "Env \<Rightarrow> string \<Rightarrow> Size \<Rightarrow> bool \<Rightarrow> WindowController option \<Rightarrow> Display option \<Rightarrow>
   WindowClosedFunc option \<Rightarrow> (failure + Impl option) \<times> action list" where
  "make env name size' resizeable ctl display closedFunc =
     (case init env Impl_new name size' resizeable ctl display closedFunc of
        (Inr True, window, tr) \<Rightarrow> (Inr (Some window), tr)
      | (Inr False, window, tr) \<Rightarrow> (Inr None, tr)
      | (Inl f, window, tr) \<Rightarrow> (Inl f, tr))"

text \<open>
  \<^verbatim>\<open>std::unordered_map::emplace\<close> inserts only when the key is absent. Where the new
  entry lands in the iteration order is unspecified; the model appends it.
\<close>

definition emplace :: "'k \<Rightarrow> 'v \<Rightarrow> ('k \<times> 'v) list \<Rightarrow> ('k \<times> 'v) list" where
  "emplace k v m = (if map_of m k \<noteq> None then m else m @ [(k, v)])"

text \<open>
  The loop of \<^verbatim>\<open>unregisterEventHandler\<close> and \<^verbatim>\<open>unregisterTimer\<close>: walk the map, stop
  at the first entry whose value is the handler, erase that entry. The result is the
  key of the erased entry and the map without it, or \<open>None\<close> when the loop ends without
  a match.
\<close>

fun erase_first :: "'v \<Rightarrow> ('k \<times> 'v) list \<Rightarrow> ('k \<times> ('k \<times> 'v) list) option" where
  "erase_first h [] = None"
| "erase_first h ((k, v) # rest) =
     (if v = h then Some (k, rest)
      else (case erase_first h rest of
              None \<Rightarrow> None
            | Some (k', rest') \<Rightarrow> Some (k', (k, v) # rest')))"

definition registerEventHandler ::
  "Impl \<Rightarrow> IEventHandler option \<Rightarrow> FileDescriptor \<Rightarrow> tresult \<times> Impl \<times> action list" where
  "registerEventHandler s handler fd =
     (case handler of
        None \<Rightarrow> (kInvalidArgument, s, [])
      | Some h \<Rightarrow>
          if map_of (eventHandlers s) fd \<noteq> None then (kInvalidArgument, s, [])
          else (kResultTrue, s\<lparr>eventHandlers := emplace fd h (eventHandlers s)\<rparr>,
                [RunLoop (registerFileDescriptor fd h)]))"

definition unregisterEventHandler ::
  "Impl \<Rightarrow> IEventHandler option \<Rightarrow> tresult \<times> Impl \<times> action list" where
  "unregisterEventHandler s handler =
     (case handler of
        None \<Rightarrow> (kInvalidArgument, s, [])
      | Some h \<Rightarrow>
          (case erase_first h (eventHandlers s) of
             Some (fd, rest) \<Rightarrow>
               (kResultTrue, s\<lparr>eventHandlers := rest\<rparr>, [RunLoop (unregisterFileDescriptor fd)])
           | None \<Rightarrow> (kResultFalse, s, [])))"

definition registerTimer ::
  "Env \<Rightarrow> Impl \<Rightarrow> ITimerHandler option \<Rightarrow> TimerInterval \<Rightarrow> tresult \<times> Impl \<times> action list" where
  "registerTimer env s handler milliseconds =
     (case handler of
        None \<Rightarrow> (kInvalidArgument, s, [])
      | Some h \<Rightarrow>
          if milliseconds = 0 then (kInvalidArgument, s, [])
          else (kResultTrue,
                s\<lparr>timerHandlers := emplace (registerTimer_ret env milliseconds) h (timerHandlers s)\<rparr>,
                [RunLoop (registerTimer_rl milliseconds h)]))"

definition unregisterTimer ::
  "Impl \<Rightarrow> ITimerHandler option \<Rightarrow> tresult \<times> Impl \<times> action list" where
  "unregisterTimer s handler =
     (case handler of
        None \<Rightarrow> (kInvalidArgument, s, [])
      | Some h \<Rightarrow>
          (case erase_first h (timerHandlers s) of
             Some (tid, rest) \<Rightarrow>
               (kResultTrue, s\<lparr>timerHandlers := rest\<rparr>, [RunLoop (unregisterTimer_rl tid)])
           | None \<Rightarrow> (kNotImplemented, s, [])))"

definition show_window :: "Impl \<Rightarrow> action list" where
  "show_window s = [Xlib (xDisplay s) (XMapWindow (xWindow s))]"

definition close_window :: "Impl \<Rightarrow> action list" where
  "close_window s = [Xlib (xDisplay s) (XUnmapWindow (xWindow s))]"

section \<open>Sequences of calls\<close>

text \<open>
  What the outside world can do with one \<^verbatim>\<open>Impl\<close>: call a method of the window or of its
  \<^verbatim>\<open>IRunLoop\<close> interface, or (the run loop) deliver an event to one of the two registered
  callbacks. A run performs the calls in order and stops at the first failure.
\<close>

datatype call =
    Call_init string Size bool "WindowController option" "Display option"
      "WindowClosedFunc option"
  | Call_show
  | Call_close
  | Call_resize Size
  | Call_registerEventHandler "IEventHandler option" FileDescriptor
  | Call_unregisterEventHandler "IEventHandler option"
  | Call_registerTimer "ITimerHandler option" TimerInterval
  | Call_unregisterTimer "ITimerHandler option"
  | Call_event callback XEvent

fun failed :: "(failure + 'r) \<Rightarrow> failure option" where
  "failed (Inl f) = Some f"
| "failed (Inr r) = None"

definition step :: "Env \<Rightarrow> Impl \<Rightarrow> call \<Rightarrow> failure option \<times> Impl \<times> action list" where
  "step env s c =
     (case c of
        Call_init name sz resizeable ctl display closedFunc \<Rightarrow>
          (case init env s name sz resizeable ctl display closedFunc of
             (r, s', tr) \<Rightarrow> (failed r, s', tr))
      | Call_show \<Rightarrow> (None, s, show_window s)
      | Call_close \<Rightarrow> (None, s, close_window s)
      | Call_resize newSize \<Rightarrow> (case resize s newSize False of (s', tr) \<Rightarrow> (None, s', tr))
      | Call_registerEventHandler handler fd \<Rightarrow>
          (case registerEventHandler s handler fd of (r, s', tr) \<Rightarrow> (None, s', tr))
      | Call_unregisterEventHandler handler \<Rightarrow>
          (case unregisterEventHandler s handler of (r, s', tr) \<Rightarrow> (None, s', tr))
      | Call_registerTimer handler milliseconds \<Rightarrow>
          (case registerTimer env s handler milliseconds of (r, s', tr) \<Rightarrow> (None, s', tr))
      | Call_unregisterTimer handler \<Rightarrow>
          (case unregisterTimer s handler of (r, s', tr) \<Rightarrow> (None, s', tr))
      | Call_event MainWindowCb event \<Rightarrow>
          (case handleMainWindowEvent env s event of (r, s', tr) \<Rightarrow> (failed r, s', tr))
      | Call_event PlugCb event \<Rightarrow>
          (case handlePlugEvent env s event of (r, s', tr) \<Rightarrow> (failed r, s', tr)))"

fun run :: "Impl \<Rightarrow> (Env \<times> call) list \<Rightarrow> failure option \<times> Impl \<times> action list" where
  "run s [] = (None, s, [])"
| "run s ((env, c) # cs) =
     (case step env s c of
        (Some f, s', tr) \<Rightarrow> (Some f, s', tr)
      | (None, s', tr) \<Rightarrow> (case run s' cs of (r, s'', tr') \<Rightarrow> (r, s'', tr @ tr')))"

section \<open>Observations on traces and runs\<close>

text \<open>
  The XEmbed messages of a trace: every \<^verbatim>\<open>XSendEvent\<close> (only \<open>send_xembed_message\<close>
  issues one), as the receiving window and the opcode in \<^verbatim>\<open>data.l[1]\<close>.
\<close>

fun xembed_messages :: "action list \<Rightarrow> (Window \<times> long) list" where
  "xembed_messages [] = []"
| "xembed_messages (Xlib dpy (XSendEvent w propagate em ev) # tr) =
     (w, data_l1 ev) # xembed_messages tr"
| "xembed_messages (a # tr) = xembed_messages tr"

text \<open>The reparenting requests of a trace, as the window and its new parent.\<close>

fun reparent_requests :: "action list \<Rightarrow> (Window \<times> Window) list" where
  "reparent_requests [] = []"
| "reparent_requests (Xlib dpy (XReparentWindow w p) # tr) = (w, p) # reparent_requests tr"
| "reparent_requests (a # tr) = reparent_requests tr"

text \<open>
  A call is an embedding request in state \<open>s\<close> when it delivers, to the plug callback, a
  \<open>CreateNotify\<close> whose parent is the current \<^verbatim>\<open>plugParentWindow\<close>. A run is still
  awaiting the plug when none of its calls was one at the moment it was made.
\<close>

definition is_embedding_request :: "Impl \<Rightarrow> call \<Rightarrow> bool" where
  "is_embedding_request s c =
     (case c of
        Call_event PlugCb (CreateNotify parent w) \<Rightarrow> parent = plugParentWindow s
      | _ \<Rightarrow> False)"

fun awaiting_plug :: "Impl \<Rightarrow> (Env \<times> call) list \<Rightarrow> bool" where
  "awaiting_plug s [] = True"
| "awaiting_plug s ((env, c) # cs) =
     (\<not> is_embedding_request s c \<and>
      (case step env s c of
         (Some f, s', tr) \<Rightarrow> True
       | (None, s', tr) \<Rightarrow> awaiting_plug s' cs))"

section \<open>Concrete environments and states\<close>

text \<open>
  A display on which both atoms exist, a visual matches and every window carries an
  \<^verbatim>\<open>_XEMBED_INFO\<close> property with version 0 and no flag set.
\<close>

definition ex_env :: Env where
  "ex_env =
     \<lparr>XInternAtom_ret =
        (\<lambda>n e. if n = ''_XEMBED_INFO'' then 11 else if n = ''_XEMBED'' then 12 else 13),
      XMatchVisualInfo_ret = True, RootWindow_ret = 1, DisplayWidth_ret = 1920,
      DisplayHeight_ret = 1080, XCreateWindow_ret = (\<lambda>p. p + 100), XCreateGC_ret = 5,
      XGetWindowProperty_ret = (\<lambda>w a. (0, Some \<lparr>version = 0, flags = 0\<rparr>)),
      XGetAtomName_ret = (\<lambda>a. ''atom''), constrainSize_ret = (\<lambda>sz. sz),
      registerTimer_ret = (\<lambda>i. 1)\<rparr>"

text \<open>The same display, but reading a window property fails.\<close>

definition ex_env_noinfo :: Env where
  "ex_env_noinfo = ex_env\<lparr>XGetWindowProperty_ret := (\<lambda>w a. (1, None))\<rparr>"

text \<open>The same display, but no 24-bit TrueColor visual matches.\<close>

definition ex_env_novisual :: Env where
  "ex_env_novisual = ex_env\<lparr>XMatchVisualInfo_ret := False\<rparr>"

definition ex_init :: call where
  "ex_init = Call_init ''plug'' \<lparr>width = 3, height = 4\<rparr> True (Some 1) (Some 2) None"

text \<open>The state after \<^verbatim>\<open>init\<close>, and after the plug window 7 was then embedded.\<close>

definition ex_ready :: Impl where
  "ex_ready =
     fst (snd (init ex_env Impl_new ''plug'' \<lparr>width = 3, height = 4\<rparr> True (Some 1) (Some 2) None))"

definition ex_embedded :: Impl where
  "ex_embedded = fst (snd (handlePlugEvent ex_env ex_ready (CreateNotify 201 7)))"

definition ex_init_trace :: "action list" where
  "ex_init_trace =
     snd (snd (init ex_env Impl_new ''plug'' \<lparr>width = 3, height = 4\<rparr> True (Some 1) (Some 2) None))"

definition ex_embed_trace :: "action list" where
  "ex_embed_trace = snd (snd (handlePlugEvent ex_env ex_ready (CreateNotify 201 7)))"

text \<open>
  Two call sequences on a fresh window: one in which only a stranger's window is
  created, one in which the plug window 7 is created under the container; and a focus
  request as the embedded plug-in sends it.
\<close>

definition ex_waiting_calls :: "(Env \<times> call) list" where
  "ex_waiting_calls =
     [(ex_env, ex_init), (ex_env, Call_event MainWindowCb FocusIn),
      (ex_env, Call_event PlugCb (CreateNotify 5 9)),
      (ex_env, Call_event MainWindowCb FocusOut)]"

definition ex_embedding_calls :: "(Env \<times> call) list" where
  "ex_embedding_calls = [(ex_env, ex_init), (ex_env, Call_event PlugCb (CreateNotify 201 7))]"

definition ex_request_focus :: XClientMessageEvent where
  "ex_request_focus =
     \<lparr>xclient_window = 7, message_type = 12, format = 32, data_l0 = 0,
      data_l1 = XEMBED_REQUEST_FOCUS, data_l2 = 0, data_l3 = 0, data_l4 = 0\<rparr>"

text \<open>The main window is reported mapped three times in a row.\<close>

definition ex_mapping_calls :: "(Env \<times> call) list" where
  "ex_mapping_calls =
     [(ex_env, Call_event MainWindowCb (MapNotify 101)),
      (ex_env, Call_event MainWindowCb (MapNotify 101)),
      (ex_env, Call_event MainWindowCb (MapNotify 101))]"

text \<open>The state after \<^verbatim>\<open>init\<close> with one event handler and one timer registered.\<close>

definition ex_registered :: Impl where
  "ex_registered =
     fst (snd (registerTimer ex_env
       (fst (snd (registerEventHandler ex_ready (Some 8) 3))) (Some 9) 50))"

text \<open>A fresh window on which two plug windows, 7 and then 8, are created under the container.\<close>

definition ex_two_windows_calls :: "(Env \<times> call) list" where
  "ex_two_windows_calls =
     [(ex_env, ex_init), (ex_env, Call_event PlugCb (CreateNotify 201 7)),
      (ex_env, Call_event PlugCb (CreateNotify 201 8))]"

section \<open>Properties\<close>

subsection \<open>The concrete states and runs, evaluated\<close>

lemma ex_ready_eq:
  "ex_ready =
     \<lparr>controller = Some 1, windowClosedFunc = None, xDisplay = Some 2, xembedInfo = None,
      xWindow = 101, plugParentWindow = 201, plugWindow = 0, xGraphicContext = 5,
      xEmbedInfoAtom = 11, xEmbedAtom = 0, isMapped = False,
      mCurrentSize = \<lparr>width = 3, height = 4\<rparr>, eventHandlers = [], timerHandlers = []\<rparr>"
  by (simp add: ex_ready_def init_def ex_env_def Impl_new_def None_atom_def resize_def
      Let_def)

lemma ex_embedded_eq:
  "ex_embedded =
     \<lparr>controller = Some 1, windowClosedFunc = None, xDisplay = Some 2,
      xembedInfo = Some \<lparr>version = 0, flags = 0\<rparr>,
      xWindow = 101, plugParentWindow = 201, plugWindow = 7, xGraphicContext = 5,
      xEmbedInfoAtom = 11, xEmbedAtom = 12, isMapped = False,
      mCurrentSize = \<lparr>width = 3, height = 4\<rparr>, eventHandlers = [], timerHandlers = []\<rparr>"
  by (simp add: ex_embedded_def ex_ready_eq handlePlugEvent_def getXEmbedInfo_def ex_env_def
      None_atom_def Success_def XEMBED_MAPPED_def Let_def)

lemma ex_registered_eq:
  "ex_registered = ex_ready\<lparr>eventHandlers := [(3, 8)], timerHandlers := [(1, 9)]\<rparr>"
  by (simp add: ex_registered_def registerEventHandler_def registerTimer_def emplace_def
      ex_ready_eq ex_env_def)

lemma ex_step_init: "step ex_env Impl_new ex_init = (None, ex_ready, ex_init_trace)"
  by (simp add: step_def ex_init_def ex_ready_def ex_init_trace_def init_def ex_env_def
      Impl_new_def None_atom_def resize_def Let_def)

lemma ex_step_embed:
  "step ex_env ex_ready (Call_event PlugCb (CreateNotify 201 7)) =
     (None, ex_embedded, ex_embed_trace)"
  by (simp add: step_def ex_embedded_def ex_embed_trace_def ex_ready_eq handlePlugEvent_def
      getXEmbedInfo_def ex_env_def None_atom_def Success_def XEMBED_MAPPED_def Let_def)

lemma ex_step_focus:
  "step ex_env ex_ready (Call_event MainWindowCb FocusIn) = (None, ex_ready, [])"
  "step ex_env ex_ready (Call_event MainWindowCb FocusOut) = (None, ex_ready, [])"
  "step ex_env ex_ready (Call_event PlugCb (CreateNotify 5 9)) = (None, ex_ready, [])"
  by (simp_all add: step_def ex_ready_eq handleMainWindowEvent_def handlePlugEvent_def)

lemma ex_waiting_run: "run Impl_new ex_waiting_calls = (None, ex_ready, ex_init_trace)"
  by (simp add: ex_waiting_calls_def ex_step_init ex_step_focus)

lemma ex_embedding_run:
  "run Impl_new ex_embedding_calls = (None, ex_embedded, ex_init_trace @ ex_embed_trace)"
  by (simp add: ex_embedding_calls_def ex_step_init ex_step_embed)

lemma ex_mapping_run:
  "run ex_ready ex_mapping_calls = (None, ex_ready\<lparr>isMapped := True\<rparr>, [Controller onShow])"
  by (simp add: ex_mapping_calls_def step_def ex_ready_eq handleMainWindowEvent_def)

subsection \<open>What each function leaves alone\<close>

lemma xembed_messages_append [simp]:
  "xembed_messages (xs @ ys) = xembed_messages xs @ xembed_messages ys"
  by (induction xs rule: xembed_messages.induct) simp_all

lemma reparent_requests_append [simp]:
  "reparent_requests (xs @ ys) = reparent_requests xs @ reparent_requests ys"
  by (induction xs rule: reparent_requests.induct) simp_all

lemma count_list_append_eq:
  "count_list (xs @ ys) a = count_list xs a + count_list ys a"
  by (induction xs) simp_all

lemma resize_frame:
  "resize s n f = (s', tr) \<Longrightarrow>
   plugWindow s' = plugWindow s \<and> xembedInfo s' = xembedInfo s \<and> xEmbedAtom s' = xEmbedAtom s \<and>
   plugParentWindow s' = plugParentWindow s \<and> isMapped s' = isMapped s \<and>
   xembed_messages tr = [] \<and> reparent_requests tr = [] \<and>
   Controller onShow \<notin> set tr \<and> Controller onClose_ctl \<notin> set tr"
  by (auto simp: resize_def split: if_splits)

lemma onClose_frame:
  "onClose s = (s', tr) \<Longrightarrow>
   plugWindow s' = plugWindow s \<and> xembedInfo s' = xembedInfo s \<and> xEmbedAtom s' = xEmbedAtom s \<and>
   plugParentWindow s' = plugParentWindow s \<and> \<not> isMapped s' \<and>
   xembed_messages tr = [] \<and> reparent_requests tr = [] \<and> Controller onShow \<notin> set tr"
  by (auto simp: onClose_def split: if_splits)

lemma handleMainWindowEvent_frame:
  "handleMainWindowEvent env s ev = (r, s', tr) \<Longrightarrow>
   plugWindow s' = plugWindow s \<and> xembedInfo s' = xembedInfo s \<and> xEmbedAtom s' = xEmbedAtom s \<and>
   plugParentWindow s' = plugParentWindow s \<and> reparent_requests tr = []"
  by (cases ev)
    (auto simp: handleMainWindowEvent_def send_xembed_message_def Let_def
          split: if_splits option.splits prod.splits
          dest: resize_frame onClose_frame)

lemma handleMainWindowEvent_silent:
  "xembedInfo s = None \<Longrightarrow> handleMainWindowEvent env s ev = (r, s', tr) \<Longrightarrow>
   xembed_messages tr = []"
  by (cases ev)
    (auto simp: handleMainWindowEvent_def Let_def
          split: if_splits option.splits prod.splits
          dest: resize_frame onClose_frame)

lemma handleMainWindowEvent_mapped:
  assumes "handleMainWindowEvent env s ev = (r, s', tr)"
    and "Controller onClose_ctl \<notin> set tr"
  shows "count_list tr (Controller onShow) = (if isMapped s' \<and> \<not> isMapped s then 1 else 0) \<and>
         (isMapped s \<longrightarrow> isMapped s')"
proof (cases ev)
  case (Expose n)
  with assms show ?thesis
    by (auto simp: handleMainWindowEvent_def split: if_splits)
next
  case (ConfigureNotify w cw ch)
  with assms show ?thesis
    by (auto simp: handleMainWindowEvent_def resize_def Let_def
        split: if_splits option.splits)
next
  case (MapNotify w)
  with assms show ?thesis
    by (auto simp: handleMainWindowEvent_def split: if_splits option.splits)
next
  case (UnmapNotify w)
  with assms show ?thesis
    by (auto simp: handleMainWindowEvent_def split: if_splits option.splits prod.splits)
next
  case DestroyNotify
  with assms show ?thesis by (auto simp: handleMainWindowEvent_def)
next
  case (ClientMessage m)
  with assms show ?thesis
    by (auto simp: handleMainWindowEvent_def split: if_splits option.splits prod.splits)
next
  case FocusIn
  with assms show ?thesis
    by (auto simp: handleMainWindowEvent_def send_xembed_message_def split: option.splits)
next
  case FocusOut
  with assms show ?thesis
    by (auto simp: handleMainWindowEvent_def send_xembed_message_def split: option.splits)
next
  case (ResizeRequest w rw rh)
  with assms show ?thesis
    by (auto simp: handleMainWindowEvent_def resize_def Let_def
        split: if_splits option.splits)
next
  case (PropertyNotify w a)
  with assms show ?thesis by (auto simp: handleMainWindowEvent_def)
next
  case (CreateNotify p w)
  with assms show ?thesis by (auto simp: handleMainWindowEvent_def)
next
  case (OtherEvent ty)
  with assms show ?thesis by (auto simp: handleMainWindowEvent_def)
qed

lemma init_frame:
  "init env s name size' resizeable ctl display closedFunc = (r, s', tr) \<Longrightarrow>
   plugWindow s' = plugWindow s \<and> xembedInfo s' = xembedInfo s \<and> xEmbedAtom s' = xEmbedAtom s \<and>
   isMapped s' = isMapped s \<and> xembed_messages tr = [] \<and> reparent_requests tr = [] \<and>
   Controller onShow \<notin> set tr \<and> Controller onClose_ctl \<notin> set tr"
  by (auto simp: init_def resize_def Let_def split: if_splits)

lemma registerEventHandler_frame:
  "registerEventHandler s h fd = (r, s', tr) \<Longrightarrow>
   plugWindow s' = plugWindow s \<and> xembedInfo s' = xembedInfo s \<and> xEmbedAtom s' = xEmbedAtom s \<and>
   plugParentWindow s' = plugParentWindow s \<and> isMapped s' = isMapped s \<and>
   xembed_messages tr = [] \<and> reparent_requests tr = [] \<and>
   Controller onShow \<notin> set tr \<and> Controller onClose_ctl \<notin> set tr"
  by (auto simp: registerEventHandler_def split: if_splits option.splits)

lemma unregisterEventHandler_frame:
  "unregisterEventHandler s h = (r, s', tr) \<Longrightarrow>
   plugWindow s' = plugWindow s \<and> xembedInfo s' = xembedInfo s \<and> xEmbedAtom s' = xEmbedAtom s \<and>
   plugParentWindow s' = plugParentWindow s \<and> isMapped s' = isMapped s \<and>
   xembed_messages tr = [] \<and> reparent_requests tr = [] \<and>
   Controller onShow \<notin> set tr \<and> Controller onClose_ctl \<notin> set tr"
  by (auto simp: unregisterEventHandler_def split: if_splits option.splits)

lemma registerTimer_frame:
  "registerTimer env s h ms = (r, s', tr) \<Longrightarrow>
   plugWindow s' = plugWindow s \<and> xembedInfo s' = xembedInfo s \<and> xEmbedAtom s' = xEmbedAtom s \<and>
   plugParentWindow s' = plugParentWindow s \<and> isMapped s' = isMapped s \<and>
   xembed_messages tr = [] \<and> reparent_requests tr = [] \<and>
   Controller onShow \<notin> set tr \<and> Controller onClose_ctl \<notin> set tr"
  by (auto simp: registerTimer_def split: if_splits option.splits)

lemma unregisterTimer_frame:
  "unregisterTimer s h = (r, s', tr) \<Longrightarrow>
   plugWindow s' = plugWindow s \<and> xembedInfo s' = xembedInfo s \<and> xEmbedAtom s' = xEmbedAtom s \<and>
   plugParentWindow s' = plugParentWindow s \<and> isMapped s' = isMapped s \<and>
   xembed_messages tr = [] \<and> reparent_requests tr = [] \<and>
   Controller onShow \<notin> set tr \<and> Controller onClose_ctl \<notin> set tr"
  by (auto simp: unregisterTimer_def split: if_splits option.splits)

lemma getXEmbedInfo_frame:
  "getXEmbedInfo env s = (i, s', tr) \<Longrightarrow>
   plugWindow s' = plugWindow s \<and> xembedInfo s' = xembedInfo s \<and> xEmbedAtom s' = xEmbedAtom s \<and>
   plugParentWindow s' = plugParentWindow s \<and> isMapped s' = isMapped s \<and>
   xembed_messages tr = [] \<and> reparent_requests tr = [] \<and>
   Controller onShow \<notin> set tr \<and> Controller onClose_ctl \<notin> set tr"
  by (auto simp: getXEmbedInfo_def Let_def split: if_splits prod.splits)

lemma handlePlugEvent_frame:
  "handlePlugEvent env s ev = (r, s', tr) \<Longrightarrow>
   plugParentWindow s' = plugParentWindow s \<and> isMapped s' = isMapped s \<and>
   reparent_requests tr = [] \<and> Controller onShow \<notin> set tr \<and> Controller onClose_ctl \<notin> set tr"
  by (cases ev)
    (auto simp: handlePlugEvent_def send_xembed_message_def Let_def
          split: if_splits option.splits prod.splits
          dest: getXEmbedInfo_frame)

lemma handlePlugEvent_other:
  "\<not> (\<exists>w. ev = CreateNotify (plugParentWindow s) w) \<Longrightarrow> handlePlugEvent env s ev = (r, s', tr) \<Longrightarrow>
   s' = s \<and> (xembedInfo s = None \<longrightarrow> xembed_messages tr = [])"
  by (cases ev)
    (auto simp: handlePlugEvent_def Let_def
          split: if_splits option.splits prod.splits)

lemma handlePlugEvent_embedded:
  "handlePlugEvent env s ev = (Inr b, s', tr) \<Longrightarrow>
   xEmbedAtom s \<noteq> None_atom \<longrightarrow> xembedInfo s \<noteq> None \<Longrightarrow>
   xEmbedAtom s' \<noteq> None_atom \<longrightarrow> xembedInfo s' \<noteq> None"
  by (cases ev)
    (auto simp: handlePlugEvent_def Let_def
          split: if_splits option.splits prod.splits
          dest: getXEmbedInfo_frame)

lemma handlePlugEvent_create:
  "handlePlugEvent env s (CreateNotify (plugParentWindow s) w) = (r, s', tr) \<Longrightarrow> plugWindow s' = w"
  by (auto simp: handlePlugEvent_def Let_def
          split: if_splits option.splits prod.splits
          dest: getXEmbedInfo_frame)

lemma handlePlugEvent_embeds:
  assumes "handlePlugEvent env s (CreateNotify (plugParentWindow s) w) = (Inr True, s', tr)"
  shows "xembed_messages tr =
           [(w, XEMBED_EMBEDDED_NOTIFY), (w, XEMBED_WINDOW_ACTIVATE), (w, XEMBED_FOCUS_IN)] \<and>
         RunLoop (registerWindow w PlugCb) \<in> set tr \<and>
         Xlib (xDisplay s) (XMapWindow w) \<in> set tr \<and>
         Xlib (xDisplay s) (XUnmapWindow (plugWindow s)) \<notin> set tr"
proof -
  obtain i s2 tr1 where g: "getXEmbedInfo env (s\<lparr>plugWindow := w\<rparr>) = (i, s2, tr1)"
    by (cases "getXEmbedInfo env (s\<lparr>plugWindow := w\<rparr>)")
  then have tr1: "tr1 =
      (if xEmbedInfoAtom s = None_atom
       then [Xlib (xDisplay s) (XInternAtom ''_XEMBED_INFO'' True)] else []) @
      [Xlib (xDisplay s) (XGetWindowProperty w (xEmbedInfoAtom s2))]"
    and s2: "xDisplay s2 = xDisplay s" "plugWindow s2 = w"
    by (auto simp: getXEmbedInfo_def Let_def split: if_splits prod.splits)
  from assms g s2 show ?thesis
    by (auto simp: handlePlugEvent_def send_xembed_message_def Let_def tr1
        split: if_splits option.splits)
qed

subsection \<open>Single calls\<close>

text \<open>One call changes the embedding state only if it is an embedding request.\<close>

lemma step_embedding_state:
  assumes "step env s c = (r, s', tr)"
    and "\<not> is_embedding_request s c"
  shows "plugWindow s' = plugWindow s \<and> xembedInfo s' = xembedInfo s \<and>
         (xembedInfo s = None \<longrightarrow> xembed_messages tr = [])"
proof (cases c)
  case (Call_init name sz resizeable ctl display closedFunc)
  with assms(1) show ?thesis
    by (auto simp: step_def split: prod.splits dest: init_frame)
next
  case Call_show
  with assms(1) show ?thesis by (auto simp: step_def show_window_def)
next
  case Call_close
  with assms(1) show ?thesis by (auto simp: step_def close_window_def)
next
  case (Call_resize newSize)
  with assms(1) show ?thesis
    by (auto simp: step_def split: prod.splits dest: resize_frame)
next
  case (Call_registerEventHandler h fd)
  with assms(1) show ?thesis
    by (auto simp: step_def split: prod.splits dest: registerEventHandler_frame)
next
  case (Call_unregisterEventHandler h)
  with assms(1) show ?thesis
    by (auto simp: step_def split: prod.splits dest: unregisterEventHandler_frame)
next
  case (Call_registerTimer h ms)
  with assms(1) show ?thesis
    by (auto simp: step_def split: prod.splits dest: registerTimer_frame)
next
  case (Call_unregisterTimer h)
  with assms(1) show ?thesis
    by (auto simp: step_def split: prod.splits dest: unregisterTimer_frame)
next
  case (Call_event cb ev)
  show ?thesis
  proof (cases cb)
    case MainWindowCb
    with Call_event assms(1) show ?thesis
      by (auto simp: step_def split: prod.splits
          dest: handleMainWindowEvent_frame handleMainWindowEvent_silent)
  next
    case PlugCb
    with Call_event assms(2) have "\<not> (\<exists>w. ev = CreateNotify (plugParentWindow s) w)"
      by (auto simp: is_embedding_request_def)
    then have ne: "\<not> (\<exists>w. ev = CreateNotify (plugParentWindow s) w)" .
    from PlugCb Call_event assms(1) obtain x where h: "handlePlugEvent env s ev = (x, s', tr)"
      by (auto simp: step_def split: prod.splits)
    from handlePlugEvent_other [OF ne h] show ?thesis by simp
  qed
qed

lemma step_embedding_request:
  assumes "step env s c = (r, s', tr)"
    and "is_embedding_request s c"
  shows "\<exists>w. c = Call_event PlugCb (CreateNotify (plugParentWindow s) w) \<and> plugWindow s' = w"
proof -
  from assms(2) obtain w where c: "c = Call_event PlugCb (CreateNotify (plugParentWindow s) w)"
    by (auto simp: is_embedding_request_def split: call.splits callback.splits XEvent.splits)
  with assms(1) have "plugWindow s' = w"
    by (auto simp: step_def split: prod.splits dest: handlePlugEvent_create)
  with c show ?thesis by simp
qed

lemma step_embedded_inv:
  assumes "step env s c = (None, s', tr)"
    and "xEmbedAtom s \<noteq> None_atom \<longrightarrow> xembedInfo s \<noteq> None"
  shows "xEmbedAtom s' \<noteq> None_atom \<longrightarrow> xembedInfo s' \<noteq> None"
proof (cases c)
  case (Call_init name sz resizeable ctl display closedFunc)
  with assms show ?thesis
    by (auto simp: step_def split: prod.splits dest: init_frame)
next
  case Call_show
  with assms show ?thesis by (auto simp: step_def)
next
  case Call_close
  with assms show ?thesis by (auto simp: step_def)
next
  case (Call_resize newSize)
  with assms show ?thesis
    by (auto simp: step_def split: prod.splits dest: resize_frame)
next
  case (Call_registerEventHandler h fd)
  with assms show ?thesis
    by (auto simp: step_def split: prod.splits dest: registerEventHandler_frame)
next
  case (Call_unregisterEventHandler h)
  with assms show ?thesis
    by (auto simp: step_def split: prod.splits dest: unregisterEventHandler_frame)
next
  case (Call_registerTimer h ms)
  with assms show ?thesis
    by (auto simp: step_def split: prod.splits dest: registerTimer_frame)
next
  case (Call_unregisterTimer h)
  with assms show ?thesis
    by (auto simp: step_def split: prod.splits dest: unregisterTimer_frame)
next
  case (Call_event cb ev)
  show ?thesis
  proof (cases cb)
    case MainWindowCb
    with Call_event assms show ?thesis
      by (auto simp: step_def split: prod.splits dest: handleMainWindowEvent_frame)
  next
    case PlugCb
    with Call_event assms(1) obtain b where "handlePlugEvent env s ev = (Inr b, s', tr)"
      by (auto simp: step_def split: prod.splits elim: failed.elims)
    from handlePlugEvent_embedded [OF this assms(2)] show ?thesis .
  qed
qed

lemma step_reparent:
  assumes "step env s c = (r, s', tr)"
  shows "reparent_requests tr = []"
proof (cases c)
  case (Call_init name sz resizeable ctl display closedFunc)
  with assms show ?thesis
    by (auto simp: step_def split: prod.splits dest: init_frame)
next
  case Call_show
  with assms show ?thesis by (auto simp: step_def show_window_def)
next
  case Call_close
  with assms show ?thesis by (auto simp: step_def close_window_def)
next
  case (Call_resize newSize)
  with assms show ?thesis
    by (auto simp: step_def split: prod.splits dest: resize_frame)
next
  case (Call_registerEventHandler h fd)
  with assms show ?thesis
    by (auto simp: step_def split: prod.splits dest: registerEventHandler_frame)
next
  case (Call_unregisterEventHandler h)
  with assms show ?thesis
    by (auto simp: step_def split: prod.splits dest: unregisterEventHandler_frame)
next
  case (Call_registerTimer h ms)
  with assms show ?thesis
    by (auto simp: step_def split: prod.splits dest: registerTimer_frame)
next
  case (Call_unregisterTimer h)
  with assms show ?thesis
    by (auto simp: step_def split: prod.splits dest: unregisterTimer_frame)
next
  case (Call_event cb ev)
  with assms show ?thesis
    by (cases cb)
      (auto simp: step_def split: prod.splits
        dest: handleMainWindowEvent_frame handlePlugEvent_frame)
qed

lemma step_other_mapped:
  assumes "step env s c = (r, s', tr)"
    and "\<forall>ev. c \<noteq> Call_event MainWindowCb ev"
  shows "isMapped s' = isMapped s \<and> Controller onShow \<notin> set tr"
proof (cases c)
  case (Call_init name sz resizeable ctl display closedFunc)
  with assms(1) obtain x where "init env s name sz resizeable ctl display closedFunc = (x, s', tr)"
    by (auto simp: step_def split: prod.splits)
  from init_frame [OF this] show ?thesis by simp
next
  case Call_show
  with assms(1) show ?thesis by (auto simp: step_def show_window_def)
next
  case Call_close
  with assms(1) show ?thesis by (auto simp: step_def close_window_def)
next
  case (Call_resize newSize)
  with assms(1) have "resize s newSize False = (s', tr)"
    by (auto simp: step_def split: prod.splits)
  from resize_frame [OF this] show ?thesis by simp
next
  case (Call_registerEventHandler h fd)
  with assms(1) obtain x where "registerEventHandler s h fd = (x, s', tr)"
    by (auto simp: step_def split: prod.splits)
  from registerEventHandler_frame [OF this] show ?thesis by simp
next
  case (Call_unregisterEventHandler h)
  with assms(1) obtain x where "unregisterEventHandler s h = (x, s', tr)"
    by (auto simp: step_def split: prod.splits)
  from unregisterEventHandler_frame [OF this] show ?thesis by simp
next
  case (Call_registerTimer h ms)
  with assms(1) obtain x where "registerTimer env s h ms = (x, s', tr)"
    by (auto simp: step_def split: prod.splits)
  from registerTimer_frame [OF this] show ?thesis by simp
next
  case (Call_unregisterTimer h)
  with assms(1) obtain x where "unregisterTimer s h = (x, s', tr)"
    by (auto simp: step_def split: prod.splits)
  from unregisterTimer_frame [OF this] show ?thesis by simp
next
  case (Call_event cb ev)
  with assms(2) have "cb = PlugCb" by (cases cb) auto
  with Call_event assms(1) obtain x where "handlePlugEvent env s ev = (x, s', tr)"
    by (auto simp: step_def split: prod.splits)
  from handlePlugEvent_frame [OF this] show ?thesis by simp
qed

lemma step_mapped:
  assumes "step env s c = (r, s', tr)"
    and "Controller onClose_ctl \<notin> set tr"
  shows "count_list tr (Controller onShow) = (if isMapped s' \<and> \<not> isMapped s then 1 else 0) \<and>
         (isMapped s \<longrightarrow> isMapped s')"
proof (cases "\<exists>ev. c = Call_event MainWindowCb ev")
  case True
  then obtain ev where "c = Call_event MainWindowCb ev" ..
  with assms(1) obtain x where "handleMainWindowEvent env s ev = (x, s', tr)"
    by (auto simp: step_def split: prod.splits)
  from handleMainWindowEvent_mapped [OF this assms(2)] show ?thesis .
next
  case False
  then have "\<forall>ev. c \<noteq> Call_event MainWindowCb ev" by simp
  from step_other_mapped [OF assms(1) this] show ?thesis
    by (simp add: count_list_0_iff)
qed

subsection \<open>Runs\<close>

lemma run_embedded_inv:
  "run s cs = (None, s', tr) \<Longrightarrow>
   xEmbedAtom s \<noteq> None_atom \<longrightarrow> xembedInfo s \<noteq> None \<Longrightarrow>
   xEmbedAtom s' \<noteq> None_atom \<longrightarrow> xembedInfo s' \<noteq> None"
proof (induction cs arbitrary: s tr)
  case Nil
  then show ?case by simp
next
  case (Cons ec cs)
  obtain env c where ec: "ec = (env, c)" by (cases ec)
  obtain r1 s1 tr1 where st: "step env s c = (r1, s1, tr1)" by (cases "step env s c")
  obtain r2 s2 tr2 where rn: "run s1 cs = (r2, s2, tr2)" by (cases "run s1 cs")
  from Cons.prems(1) ec st rn have "r1 = None" and "r2 = None" and "s2 = s'"
    by (auto split: option.splits)
  with st rn Cons.prems(2) Cons.IH [of s1 tr2] step_embedded_inv [of env s c s1 tr1]
  show ?case by blast
qed

lemma run_awaiting:
  "run s cs = (r, s', tr) \<Longrightarrow> awaiting_plug s cs \<Longrightarrow>
   plugWindow s' = plugWindow s \<and> xembedInfo s' = xembedInfo s \<and>
   (xembedInfo s = None \<longrightarrow> xembed_messages tr = [])"
proof (induction cs arbitrary: s r s' tr)
  case Nil
  then show ?case by simp
next
  case (Cons ec cs)
  obtain env c where ec: "ec = (env, c)" by (cases ec)
  obtain r1 s1 tr1 where st: "step env s c = (r1, s1, tr1)" by (cases "step env s c")
  from Cons.prems(2) ec have nreq: "\<not> is_embedding_request s c" by simp
  note fr = step_embedding_state [OF st nreq]
  show ?case
  proof (cases r1)
    case (Some f)
    with Cons.prems(1) ec st have "s' = s1" and "tr = tr1" by auto
    with fr show ?thesis by simp
  next
    case None
    obtain r2 s2 tr2 where rn: "run s1 cs = (r2, s2, tr2)" by (cases "run s1 cs")
    from None Cons.prems(1) ec st rn have eq: "s' = s2" "tr = tr1 @ tr2" by auto
    from None Cons.prems(2) ec st have "awaiting_plug s1 cs" by simp
    from Cons.IH [OF rn this] fr eq show ?thesis by simp
  qed
qed

lemma run_reparent: "reparent_requests (snd (snd (run s cs))) = []"
proof (induction cs arbitrary: s)
  case Nil
  then show ?case by simp
next
  case (Cons ec cs)
  obtain env c where ec: "ec = (env, c)" by (cases ec)
  obtain r1 s1 tr1 where st: "step env s c = (r1, s1, tr1)" by (cases "step env s c")
  from step_reparent [OF st] have t1: "reparent_requests tr1 = []" .
  from Cons.IH [of s1] ec st t1 show ?case
    by (auto split: option.splits prod.splits)
qed

lemma run_mapped:
  "run s cs = (r, s', tr) \<Longrightarrow> Controller onClose_ctl \<notin> set tr \<Longrightarrow>
   count_list tr (Controller onShow) = (if isMapped s' \<and> \<not> isMapped s then 1 else 0) \<and>
   (isMapped s \<longrightarrow> isMapped s')"
proof (induction cs arbitrary: s r s' tr)
  case Nil
  then show ?case by simp
next
  case (Cons ec cs)
  obtain env c where ec: "ec = (env, c)" by (cases ec)
  obtain r1 s1 tr1 where st: "step env s c = (r1, s1, tr1)" by (cases "step env s c")
  show ?case
  proof (cases r1)
    case (Some f)
    with Cons.prems(1) ec st have "s' = s1" and "tr = tr1" by auto
    with step_mapped [OF st] Cons.prems(2) show ?thesis by simp
  next
    case None
    obtain r2 s2 tr2 where rn: "run s1 cs = (r2, s2, tr2)" by (cases "run s1 cs")
    from None Cons.prems(1) ec st rn have eq: "s' = s2" "tr = tr1 @ tr2" by auto
    with Cons.prems(2) have nc: "Controller onClose_ctl \<notin> set tr1"
      "Controller onClose_ctl \<notin> set tr2" by auto
    note h1 = step_mapped [OF st nc(1)] and h2 = Cons.IH [OF rn nc(2)]
    from h1 h2 have "isMapped s \<longrightarrow> isMapped s2" by blast
    moreover have "count_list (tr1 @ tr2) (Controller onShow) =
        (if isMapped s2 \<and> \<not> isMapped s then 1 else 0)"
    proof (cases "isMapped s1")
      case True
      with h1 h2 show ?thesis by (simp add: count_list_append_eq)
    next
      case False
      with h1 h2 show ?thesis by (simp add: count_list_append_eq)
    qed
    ultimately show ?thesis using eq by simp
  qed
qed

lemma ex_waiting_awaiting: "awaiting_plug Impl_new ex_waiting_calls"
proof -
  have "\<not> is_embedding_request Impl_new ex_init"
    by (simp add: is_embedding_request_def ex_init_def)
  moreover have "\<not> is_embedding_request ex_ready (Call_event PlugCb (CreateNotify 5 9))"
    by (simp add: is_embedding_request_def ex_ready_eq)
  moreover have "\<not> is_embedding_request ex_ready (Call_event MainWindowCb ev)" for ev
    by (simp add: is_embedding_request_def)
  ultimately show ?thesis
    by (simp add: ex_waiting_calls_def ex_step_init ex_step_focus)
qed

subsection \<open>The handler maps\<close>

lemma erase_first_None: "erase_first h m = None \<longleftrightarrow> h \<notin> snd ` set m"
  by (induction m) (auto split: option.splits if_splits)

lemma erase_first_Some:
  "erase_first h m = Some (k, rest) \<Longrightarrow> (k, h) \<in> set m \<and> rest = remove1 (k, h) m"
  by (induction m arbitrary: k rest) (auto split: if_splits option.splits)

lemma map_of_emplace:
  "map_of m k = None \<Longrightarrow> map_of (emplace k v m) k = Some v"
  by (simp add: emplace_def map_add_def)

section \<open>The claims\<close>

text \<open>
  C1, as the code has it. For a \<open>CreateNotify\<close> whose parent is \<open>plugParentWindow\<close>,
  provided the \<^verbatim>\<open>_XEMBED_INFO\<close> property of the new window is read successfully, its
  flags do not have \<open>XEMBED_MAPPED\<close> set and the \<^verbatim>\<open>_XEMBED\<close> atom is available,
  \<open>handlePlugEvent\<close> records the window as \<open>plugWindow\<close>, reads the property,
  registers the window with the run loop, sends \<open>XEMBED_EMBEDDED_NOTIFY\<close>, maps the
  window, resizes it to \<open>mCurrentSize\<close>, sends \<open>XEMBED_WINDOW_ACTIVATE\<close> and then
  \<open>XEMBED_FOCUS_IN\<close>, in that order, and returns true.
\<close>

theorem embedding_handshake:
  assumes "infoAtom =
      (if xEmbedInfoAtom s = None_atom then XInternAtom_ret env ''_XEMBED_INFO'' True
       else xEmbedInfoAtom s)"
    and "XGetWindowProperty_ret env w infoAtom = (Success, Some info)"
    and "flags info AND XEMBED_MAPPED = 0"
    and "embedAtom =
      (if xEmbedAtom s = None_atom then XInternAtom_ret env ''_XEMBED'' True else xEmbedAtom s)"
    and "embedAtom \<noteq> None_atom"
  shows "handlePlugEvent env s (CreateNotify (plugParentWindow s) w) =
     (Inr True,
      s\<lparr>plugWindow := w, xEmbedInfoAtom := infoAtom, xembedInfo := Some info,
        xEmbedAtom := embedAtom\<rparr>,
      (if xEmbedInfoAtom s = None_atom
       then [Xlib (xDisplay s) (XInternAtom ''_XEMBED_INFO'' True)] else []) @
      [Xlib (xDisplay s) (XGetWindowProperty w infoAtom),
       RunLoop (registerWindow w PlugCb)] @
      (if xEmbedAtom s = None_atom
       then [Xlib (xDisplay s) (XInternAtom ''_XEMBED'' True)] else []) @
      send_xembed_message (xDisplay s) w embedAtom XEMBED_EMBEDDED_NOTIFY 0
        (plugParentWindow s) (ucast (version info)) @
      [Xlib (xDisplay s) (XMapWindow w),
       Xlib (xDisplay s) (XResizeWindow w (width (mCurrentSize s)) (height (mCurrentSize s)))] @
      send_xembed_message (xDisplay s) w embedAtom XEMBED_WINDOW_ACTIVATE 0
        (plugParentWindow s) (ucast (version info)) @
      send_xembed_message (xDisplay s) w embedAtom XEMBED_FOCUS_IN 0
        (plugParentWindow s) (ucast (version info)) @
      [Xlib (xDisplay s) (XSync False)])"
proof (cases "xEmbedInfoAtom s = None_atom")
  case True
  with assms show ?thesis
    by (cases "xEmbedAtom s = None_atom")
      (simp_all add: handlePlugEvent_def getXEmbedInfo_def Let_def)
next
  case False
  with assms show ?thesis
    by (cases "xEmbedAtom s = None_atom")
      (simp_all add: handlePlugEvent_def getXEmbedInfo_def Let_def)
qed

theorem embedding_handshake_witness:
  "handlePlugEvent ex_env ex_ready (CreateNotify 201 7) =
     (Inr True, ex_embedded,
      [Xlib (Some 2) (XGetWindowProperty 7 11),
       RunLoop (registerWindow 7 PlugCb),
       Xlib (Some 2) (XInternAtom ''_XEMBED'' True)] @
      send_xembed_message (Some 2) 7 12 XEMBED_EMBEDDED_NOTIFY 0 201 0 @
      [Xlib (Some 2) (XMapWindow 7), Xlib (Some 2) (XResizeWindow 7 3 4)] @
      send_xembed_message (Some 2) 7 12 XEMBED_WINDOW_ACTIVATE 0 201 0 @
      send_xembed_message (Some 2) 7 12 XEMBED_FOCUS_IN 0 201 0 @
      [Xlib (Some 2) (XSync False)])"
proof -
  have a: "(11::Atom) =
      (if xEmbedInfoAtom ex_ready = None_atom then XInternAtom_ret ex_env ''_XEMBED_INFO'' True
       else xEmbedInfoAtom ex_ready)"
    by (simp add: ex_ready_eq None_atom_def)
  have b: "XGetWindowProperty_ret ex_env 7 11 = (Success, Some \<lparr>version = 0, flags = 0\<rparr>)"
    by (simp add: ex_env_def Success_def)
  have c: "flags \<lparr>version = 0, flags = 0\<rparr> AND XEMBED_MAPPED = 0" by simp
  have d: "(12::Atom) =
      (if xEmbedAtom ex_ready = None_atom then XInternAtom_ret ex_env ''_XEMBED'' True
       else xEmbedAtom ex_ready)"
    by (simp add: ex_ready_eq None_atom_def ex_env_def)
  have e: "(12::Atom) \<noteq> None_atom" by (simp add: None_atom_def)
  from embedding_handshake [OF a b c d e]
  show ?thesis by (simp add: ex_ready_eq ex_embedded_eq None_atom_def)
qed

text \<open>
  C1, as the claim has it, fails: when the property cannot be read, the handler has
  recorded the window, sent nothing, and the process exits with status -1.
\<close>

theorem handshake_exit_counterexample:
  "plugParentWindow ex_ready = 201 \<and>
   fst (handlePlugEvent ex_env_noinfo ex_ready (CreateNotify 201 7)) = Inl (Exit (- 1)) \<and>
   plugWindow (fst (snd (handlePlugEvent ex_env_noinfo ex_ready (CreateNotify 201 7)))) = 7 \<and>
   xembed_messages (snd (snd (handlePlugEvent ex_env_noinfo ex_ready (CreateNotify 201 7)))) = []"
  by (simp add: ex_ready_eq handlePlugEvent_def getXEmbedInfo_def ex_env_noinfo_def ex_env_def
      None_atom_def Success_def Let_def)

text \<open>
  C2, as the code has it. No sequence of calls ever issues a reparenting request, and
  a \<open>CreateNotify\<close> that makes \<open>handlePlugEvent\<close> record a new \<open>plugWindow\<close> already
  names \<open>plugParentWindow\<close> as the parent of the created window: the plug-in creates its
  window inside the container, the module does not move it there.
\<close>

theorem embeds_without_reparenting:
  "reparent_requests (snd (snd (run s_start cs))) = [] \<and>
   (handlePlugEvent env s (CreateNotify parent w) = (r, s', tr) \<and> plugWindow s' \<noteq> plugWindow s
      \<longrightarrow> parent = plugParentWindow s \<and> plugWindow s' = w \<and> reparent_requests tr = [])"
proof (intro conjI impI)
  show "reparent_requests (snd (snd (run s_start cs))) = []" by (rule run_reparent)
next
  assume a: "handlePlugEvent env s (CreateNotify parent w) = (r, s', tr) \<and>
    plugWindow s' \<noteq> plugWindow s"
  then show "parent = plugParentWindow s"
    by (auto simp: handlePlugEvent_def split: if_splits)
  with a show "plugWindow s' = w" by (auto dest: handlePlugEvent_create)
  from a show "reparent_requests tr = []" by (auto dest: handlePlugEvent_frame)
qed

theorem embeds_without_reparenting_witness:
  "reparent_requests (snd (snd (run Impl_new ex_embedding_calls))) = [] \<and>
   plugWindow ex_embedded \<noteq> plugWindow ex_ready \<and>
   plugParentWindow ex_ready = 201 \<and> plugWindow ex_embedded = 7"
proof -
  have h: "handlePlugEvent ex_env ex_ready (CreateNotify 201 7) =
      (fst (handlePlugEvent ex_env ex_ready (CreateNotify 201 7)), ex_embedded, ex_embed_trace)"
    by (simp add: ex_embedded_def ex_embed_trace_def)
  have ne: "plugWindow ex_embedded \<noteq> plugWindow ex_ready"
    by (simp add: ex_embedded_eq ex_ready_eq)
  from embeds_without_reparenting [where s_start = Impl_new and cs = ex_embedding_calls
      and env = ex_env and s = ex_ready and parent = 201 and w = 7
      and r = "fst (handlePlugEvent ex_env ex_ready (CreateNotify 201 7))"
      and s' = ex_embedded and tr = ex_embed_trace] h ne
  show ?thesis by (auto simp: ex_ready_eq)
qed

text \<open>
  C2, as the claim has it, fails: the window 7 created under the container 201 is
  embedded (the handler returns true and the XEmbed messages go to it), and the trace
  holds no reparenting request.
\<close>

theorem reparenting_counterexample:
  "plugParentWindow ex_ready = 201 \<and>
   fst (handlePlugEvent ex_env ex_ready (CreateNotify 201 7)) = Inr True \<and>
   plugWindow (fst (snd (handlePlugEvent ex_env ex_ready (CreateNotify 201 7)))) = 7 \<and>
   xembed_messages (snd (snd (handlePlugEvent ex_env ex_ready (CreateNotify 201 7)))) =
     [(7, XEMBED_EMBEDDED_NOTIFY), (7, XEMBED_WINDOW_ACTIVATE), (7, XEMBED_FOCUS_IN)] \<and>
   reparent_requests (snd (snd (handlePlugEvent ex_env ex_ready (CreateNotify 201 7)))) = []"
  by (simp add: ex_ready_eq handlePlugEvent_def getXEmbedInfo_def ex_env_def None_atom_def
      Success_def XEMBED_MAPPED_def send_xembed_message_def Let_def)

text \<open>
  C3. For a \<open>FocusIn\<close> event \<open>handleMainWindowEvent\<close> sends
  \<open>XEMBED_WINDOW_ACTIVATE\<close> to \<open>plugWindow\<close>, for a \<open>FocusOut\<close> event
  \<open>XEMBED_WINDOW_DEACTIVATE\<close>; the message is sent exactly when \<open>xembedInfo\<close> is not
  null; with a null \<open>xembedInfo\<close> nothing is sent. The state is unchanged in every case.
\<close>

theorem focus_forwarding:
  "handleMainWindowEvent env s FocusIn =
     (Inr False, s,
      case xembedInfo s of
        None \<Rightarrow> []
      | Some info \<Rightarrow>
          send_xembed_message (xDisplay s) (plugWindow s) (xEmbedAtom s)
            XEMBED_WINDOW_ACTIVATE 0 (plugParentWindow s) (ucast (version info))) \<and>
   handleMainWindowEvent env s FocusOut =
     (Inr False, s,
      case xembedInfo s of
        None \<Rightarrow> []
      | Some info \<Rightarrow>
          send_xembed_message (xDisplay s) (plugWindow s) (xEmbedAtom s)
            XEMBED_WINDOW_DEACTIVATE 0 (plugParentWindow s) (ucast (version info))) \<and>
   xembed_messages (snd (snd (handleMainWindowEvent env s FocusIn))) =
     (if xembedInfo s = None then [] else [(plugWindow s, XEMBED_WINDOW_ACTIVATE)]) \<and>
   xembed_messages (snd (snd (handleMainWindowEvent env s FocusOut))) =
     (if xembedInfo s = None then [] else [(plugWindow s, XEMBED_WINDOW_DEACTIVATE)])"
  by (simp add: handleMainWindowEvent_def send_xembed_message_def split: option.split)

theorem focus_forwarding_witness:
  "xembed_messages (snd (snd (handleMainWindowEvent ex_env ex_embedded FocusIn))) = [(7, 1)] \<and>
   xembed_messages (snd (snd (handleMainWindowEvent ex_env ex_embedded FocusOut))) = [(7, 2)] \<and>
   handleMainWindowEvent ex_env ex_ready FocusIn = (Inr False, ex_ready, []) \<and>
   handleMainWindowEvent ex_env ex_ready FocusOut = (Inr False, ex_ready, [])"
  using focus_forwarding [of ex_env ex_embedded] focus_forwarding [of ex_env ex_ready]
  by (simp add: ex_embedded_eq ex_ready_eq send_xembed_message_def XEMBED_WINDOW_ACTIVATE_def
      XEMBED_WINDOW_DEACTIVATE_def)

text \<open>
  C4, as the code has it. A \<open>CreateNotify\<close> whose parent is not \<open>plugParentWindow\<close>
  makes \<open>handlePlugEvent\<close> return true with the state unchanged and nothing done, and
  whenever any call changes \<open>plugWindow\<close> or \<open>xembedInfo\<close>, that call delivered to the
  plug callback a \<open>CreateNotify\<close> whose parent is \<open>plugParentWindow\<close>: only windows
  created under \<open>plugParentWindow\<close> are ever embedded. The instance records one
  \<open>plugWindow\<close> at a time, but the handler has no guard for a window embedded before:
  every \<open>CreateNotify\<close> under \<open>plugParentWindow\<close> replaces \<open>plugWindow\<close> by the
  created window, whatever was recorded, and when the handler returns true the three
  handshake messages went to the created window and nothing was unmapped.
\<close>

theorem foreign_create_ignored:
  "(parent \<noteq> plugParentWindow s \<longrightarrow>
      handlePlugEvent env s (CreateNotify parent w) = (Inr True, s, [])) \<and>
   (step env s c = (r, s', tr) \<and>
    (plugWindow s' \<noteq> plugWindow s \<or> xembedInfo s' \<noteq> xembedInfo s) \<longrightarrow>
      (\<exists>w'. c = Call_event PlugCb (CreateNotify (plugParentWindow s) w') \<and> plugWindow s' = w')) \<and>
   (handlePlugEvent env s (CreateNotify (plugParentWindow s) wnew) = (rnew, snew, trnew) \<longrightarrow>
      plugWindow snew = wnew \<and>
      (rnew = Inr True \<longrightarrow>
         xembed_messages trnew =
           [(wnew, XEMBED_EMBEDDED_NOTIFY), (wnew, XEMBED_WINDOW_ACTIVATE), (wnew, XEMBED_FOCUS_IN)] \<and>
         RunLoop (registerWindow wnew PlugCb) \<in> set trnew \<and>
         Xlib (xDisplay s) (XMapWindow wnew) \<in> set trnew \<and>
         Xlib (xDisplay s) (XUnmapWindow (plugWindow s)) \<notin> set trnew))"
proof (intro conjI impI)
  assume "parent \<noteq> plugParentWindow s"
  then show "handlePlugEvent env s (CreateNotify parent w) = (Inr True, s, [])"
    by (simp add: handlePlugEvent_def)
next
  assume a: "step env s c = (r, s', tr) \<and>
    (plugWindow s' \<noteq> plugWindow s \<or> xembedInfo s' \<noteq> xembedInfo s)"
  then have "is_embedding_request s c"
    using step_embedding_state [of env s c r s' tr] by blast
  with a show "\<exists>w'. c = Call_event PlugCb (CreateNotify (plugParentWindow s) w') \<and>
      plugWindow s' = w'"
    using step_embedding_request [of env s c r s' tr] by blast
next
  assume h: "handlePlugEvent env s (CreateNotify (plugParentWindow s) wnew) = (rnew, snew, trnew)"
  then show "plugWindow snew = wnew" by (rule handlePlugEvent_create)
  assume "rnew = Inr True"
  with h have t: "handlePlugEvent env s (CreateNotify (plugParentWindow s) wnew) = (Inr True, snew, trnew)"
    by simp
  from handlePlugEvent_embeds [OF t]
  show "xembed_messages trnew =
      [(wnew, XEMBED_EMBEDDED_NOTIFY), (wnew, XEMBED_WINDOW_ACTIVATE), (wnew, XEMBED_FOCUS_IN)]"
    and "RunLoop (registerWindow wnew PlugCb) \<in> set trnew"
    and "Xlib (xDisplay s) (XMapWindow wnew) \<in> set trnew"
    and "Xlib (xDisplay s) (XUnmapWindow (plugWindow s)) \<notin> set trnew"
    by simp_all
qed

theorem foreign_create_ignored_witness:
  "handlePlugEvent ex_env ex_ready (CreateNotify 5 9) = (Inr True, ex_ready, []) \<and>
   step ex_env ex_ready (Call_event PlugCb (CreateNotify 201 7)) =
     (None, ex_embedded, ex_embed_trace) \<and>
   plugWindow ex_embedded \<noteq> plugWindow ex_ready \<and>
   plugParentWindow ex_ready = 201 \<and> plugWindow ex_embedded = 7 \<and>
   xembed_messages ex_embed_trace = [(7, 0), (7, 1), (7, 4)]"
proof -
  have ne: "plugWindow ex_embedded \<noteq> plugWindow ex_ready"
    by (simp add: ex_embedded_eq ex_ready_eq)
  have p: "(5::Window) \<noteq> plugParentWindow ex_ready"
    by (simp add: ex_ready_eq)
  have pp: "plugParentWindow ex_ready = 201" by (simp add: ex_ready_eq)
  have "fst (handlePlugEvent ex_env ex_ready (CreateNotify 201 7)) = Inr True"
    by (simp add: ex_ready_eq handlePlugEvent_def getXEmbedInfo_def ex_env_def None_atom_def
        Success_def XEMBED_MAPPED_def Let_def)
  then have h: "handlePlugEvent ex_env ex_ready (CreateNotify (plugParentWindow ex_ready) 7) =
      (Inr True, ex_embedded, ex_embed_trace)"
    by (simp add: pp ex_embedded_def ex_embed_trace_def prod_eq_iff)
  from foreign_create_ignored [where parent = 5 and s = ex_ready and env = ex_env and w = 9
      and c = "Call_event PlugCb (CreateNotify 201 7)" and r = None and s' = ex_embedded
      and tr = ex_embed_trace and wnew = 7 and rnew = "Inr True" and snew = ex_embedded
      and trnew = ex_embed_trace] ex_step_embed ne p h
  show ?thesis
    by (auto simp: ex_ready_eq XEMBED_EMBEDDED_NOTIFY_def XEMBED_WINDOW_ACTIVATE_def
        XEMBED_FOCUS_IN_def)
qed

text \<open>
  C4, as the claim has it, fails in its first sentence: after window 7 was embedded, a
  second window 8 created under the container is embedded as well. The whole run does
  not fail, both windows were registered and mapped and got the handshake messages,
  window 7 was never unmapped, and \<open>plugWindow\<close> now names window 8.
\<close>

theorem second_window_counterexample:
  "fst (run Impl_new ex_two_windows_calls) = None \<and>
   plugWindow (fst (snd (run Impl_new ex_two_windows_calls))) = 8 \<and>
   xembed_messages (snd (snd (run Impl_new ex_two_windows_calls))) =
     [(7, XEMBED_EMBEDDED_NOTIFY), (7, XEMBED_WINDOW_ACTIVATE), (7, XEMBED_FOCUS_IN),
      (8, XEMBED_EMBEDDED_NOTIFY), (8, XEMBED_WINDOW_ACTIVATE), (8, XEMBED_FOCUS_IN)] \<and>
   RunLoop (registerWindow 7 PlugCb) \<in> set (snd (snd (run Impl_new ex_two_windows_calls))) \<and>
   RunLoop (registerWindow 8 PlugCb) \<in> set (snd (snd (run Impl_new ex_two_windows_calls))) \<and>
   Xlib (Some 2) (XMapWindow 7) \<in> set (snd (snd (run Impl_new ex_two_windows_calls))) \<and>
   Xlib (Some 2) (XMapWindow 8) \<in> set (snd (snd (run Impl_new ex_two_windows_calls))) \<and>
   Xlib (Some 2) (XUnmapWindow 7) \<notin> set (snd (snd (run Impl_new ex_two_windows_calls)))"
proof -
  have second: "step ex_env ex_embedded (Call_event PlugCb (CreateNotify 201 8)) =
      (None, ex_embedded\<lparr>plugWindow := 8\<rparr>,
       [Xlib (Some 2) (XGetWindowProperty 8 11), RunLoop (registerWindow 8 PlugCb)] @
       send_xembed_message (Some 2) 8 12 XEMBED_EMBEDDED_NOTIFY 0 201 0 @
       [Xlib (Some 2) (XMapWindow 8), Xlib (Some 2) (XResizeWindow 8 3 4)] @
       send_xembed_message (Some 2) 8 12 XEMBED_WINDOW_ACTIVATE 0 201 0 @
       send_xembed_message (Some 2) 8 12 XEMBED_FOCUS_IN 0 201 0 @
       [Xlib (Some 2) (XSync False)])"
    by (simp add: step_def ex_embedded_eq handlePlugEvent_def getXEmbedInfo_def ex_env_def
        None_atom_def Success_def XEMBED_MAPPED_def Let_def)
  have first: "ex_embed_trace =
       [Xlib (Some 2) (XGetWindowProperty 7 11), RunLoop (registerWindow 7 PlugCb),
        Xlib (Some 2) (XInternAtom ''_XEMBED'' True)] @
       send_xembed_message (Some 2) 7 12 XEMBED_EMBEDDED_NOTIFY 0 201 0 @
       [Xlib (Some 2) (XMapWindow 7), Xlib (Some 2) (XResizeWindow 7 3 4)] @
       send_xembed_message (Some 2) 7 12 XEMBED_WINDOW_ACTIVATE 0 201 0 @
       send_xembed_message (Some 2) 7 12 XEMBED_FOCUS_IN 0 201 0 @
       [Xlib (Some 2) (XSync False)]"
    by (simp add: ex_embed_trace_def ex_ready_eq handlePlugEvent_def getXEmbedInfo_def
        ex_env_def None_atom_def Success_def XEMBED_MAPPED_def Let_def)
  have start: "xembed_messages ex_init_trace = [] \<and>
      Xlib (Some 2) (XUnmapWindow 7) \<notin> set ex_init_trace"
    using init_frame [of ex_env Impl_new "''plug''" "\<lparr>width = 3, height = 4\<rparr>" True "Some 1"
        "Some 2" None
        "fst (init ex_env Impl_new ''plug'' \<lparr>width = 3, height = 4\<rparr> True (Some 1) (Some 2) None)"
        ex_ready ex_init_trace]
    by (auto simp: ex_ready_def ex_init_trace_def init_def resize_def Let_def ex_env_def
        Impl_new_def None_atom_def)
  have "run Impl_new ex_two_windows_calls =
      (None, ex_embedded\<lparr>plugWindow := 8\<rparr>,
       ex_init_trace @ ex_embed_trace @
       [Xlib (Some 2) (XGetWindowProperty 8 11), RunLoop (registerWindow 8 PlugCb)] @
       send_xembed_message (Some 2) 8 12 XEMBED_EMBEDDED_NOTIFY 0 201 0 @
       [Xlib (Some 2) (XMapWindow 8), Xlib (Some 2) (XResizeWindow 8 3 4)] @
       send_xembed_message (Some 2) 8 12 XEMBED_WINDOW_ACTIVATE 0 201 0 @
       send_xembed_message (Some 2) 8 12 XEMBED_FOCUS_IN 0 201 0 @
       [Xlib (Some 2) (XSync False)])"
    by (simp add: ex_two_windows_calls_def ex_step_init ex_step_embed second)
  with start show ?thesis
    by (simp add: first send_xembed_message_def)
qed

text \<open>
  C5. In every sequence of calls that starts with \<open>plugWindow\<close> 0 and \<open>xembedInfo\<close>
  null, as long as no \<open>CreateNotify\<close> with parent \<open>plugParentWindow\<close> has been handled
  by the plug callback, \<open>plugWindow\<close> is still 0, \<open>xembedInfo\<close> is still null and the
  trace holds no XEmbed message. This covers runs that end in a failure.
\<close>

theorem waits_for_plug_window:
  assumes "plugWindow s = 0" and "xembedInfo s = None"
    and "awaiting_plug s cs" and "run s cs = (r, s', tr)"
  shows "plugWindow s' = 0 \<and> xembedInfo s' = None \<and> xembed_messages tr = []"
  using run_awaiting [OF assms(4) assms(3)] assms(1,2) by simp

theorem waits_for_plug_window_witness:
  "plugWindow Impl_new = 0 \<and> xembedInfo Impl_new = None \<and>
   awaiting_plug Impl_new ex_waiting_calls \<and>
   fst (run Impl_new ex_waiting_calls) = None \<and>
   plugWindow (fst (snd (run Impl_new ex_waiting_calls))) = 0 \<and>
   xembedInfo (fst (snd (run Impl_new ex_waiting_calls))) = None \<and>
   xembed_messages (snd (snd (run Impl_new ex_waiting_calls))) = []"
proof -
  have a: "plugWindow Impl_new = 0" and b: "xembedInfo Impl_new = None"
    by (simp_all add: Impl_new_def)
  from waits_for_plug_window [OF a b ex_waiting_awaiting ex_waiting_run] a b
    ex_waiting_awaiting ex_waiting_run
  show ?thesis by simp
qed

text \<open>
  C6. In any state the window can be in (reached from the constructor by a sequence of
  calls that did not fail) in which the \<^verbatim>\<open>_XEMBED\<close> atom has been looked up, a
  \<open>ClientMessage\<close> whose message type is that atom and whose \<^verbatim>\<open>data.l[1]\<close> is
  \<open>XEMBED_REQUEST_FOCUS\<close> makes \<open>handlePlugEvent\<close> send \<open>XEMBED_FOCUS_IN\<close> to
  \<open>plugWindow\<close>; the handler returns false and leaves the state unchanged.
\<close>

theorem request_focus_reply:
  assumes "run Impl_new cs = (None, s, tr)"
    and "xEmbedAtom s \<noteq> None_atom"
    and "message_type m = xEmbedAtom s"
    and "data_l1 m = XEMBED_REQUEST_FOCUS"
  shows "\<exists>info. xembedInfo s = Some info \<and>
           handlePlugEvent env s (ClientMessage m) =
             (Inr False, s,
              [Xlib (xDisplay s) (XGetAtomName (message_type m)),
               StdOut (XGetAtomName_ret env (message_type m))] @
              send_xembed_message (xDisplay s) (plugWindow s) (xEmbedAtom s)
                XEMBED_FOCUS_IN 0 (plugParentWindow s) (ucast (version info))) \<and>
           xembed_messages (snd (snd (handlePlugEvent env s (ClientMessage m)))) =
             [(plugWindow s, XEMBED_FOCUS_IN)]"
proof -
  have "xEmbedAtom Impl_new \<noteq> None_atom \<longrightarrow> xembedInfo Impl_new \<noteq> None"
    by (simp add: Impl_new_def)
  from run_embedded_inv [OF assms(1) this] assms(2) obtain info
    where info: "xembedInfo s = Some info" by auto
  with assms(3,4) show ?thesis
    by (simp add: handlePlugEvent_def send_xembed_message_def)
qed

theorem request_focus_reply_witness:
  "run Impl_new ex_embedding_calls = (None, ex_embedded, ex_init_trace @ ex_embed_trace) \<and>
   xEmbedAtom ex_embedded = 12 \<and>
   fst (handlePlugEvent ex_env ex_embedded (ClientMessage ex_request_focus)) = Inr False \<and>
   xembed_messages (snd (snd (handlePlugEvent ex_env ex_embedded (ClientMessage ex_request_focus))))
     = [(7, 4)]"
proof -
  have a: "xEmbedAtom ex_embedded \<noteq> None_atom"
    by (simp add: ex_embedded_eq None_atom_def)
  have b: "message_type ex_request_focus = xEmbedAtom ex_embedded"
    by (simp add: ex_embedded_eq ex_request_focus_def)
  have c: "data_l1 ex_request_focus = XEMBED_REQUEST_FOCUS"
    by (simp add: ex_request_focus_def)
  from request_focus_reply [OF ex_embedding_run a b c, of ex_env] ex_embedding_run
  show ?thesis by (auto simp: ex_embedded_eq XEMBED_FOCUS_IN_def)
qed

text \<open>
  C7, as the code has it. \<open>init\<close> returns false, and \<open>make\<close> the null pointer, exactly
  when the \<^verbatim>\<open>_XEMBED_INFO\<close> atom does not exist. When the atom exists and a 24-bit
  TrueColor visual matches, \<open>make\<close> returns a window: the container \<open>xWindow\<close> was
  created under the root window, \<open>plugParentWindow\<close> was created under \<open>xWindow\<close>, and
  the plug callback and the main-window callback were registered for them with the run
  loop. When the atom exists and no visual matches, the process exits with status -1.
\<close>

theorem init_result:
  "(fst (init env s name size' resizeable ctl display closedFunc) = Inr False \<longleftrightarrow>
      XInternAtom_ret env ''_XEMBED_INFO'' True = None_atom) \<and>
   (fst (make env name size' resizeable ctl display closedFunc) = Inr None \<longleftrightarrow>
      XInternAtom_ret env ''_XEMBED_INFO'' True = None_atom) \<and>
   (XInternAtom_ret env ''_XEMBED_INFO'' True \<noteq> None_atom \<and> XMatchVisualInfo_ret env \<longrightarrow>
      (\<exists>window tr.
         make env name size' resizeable ctl display closedFunc = (Inr (Some window), tr) \<and>
         init env Impl_new name size' resizeable ctl display closedFunc =
           (Inr True, window, tr) \<and>
         xWindow window = XCreateWindow_ret env (RootWindow_ret env) \<and>
         plugParentWindow window = XCreateWindow_ret env (xWindow window) \<and>
         Xlib display
           (XCreateWindow (RootWindow_ret env) 0 0 (DisplayWidth_ret env)
              (DisplayHeight_ret env) 1) \<in> set tr \<and>
         Xlib display (XCreateWindow (xWindow window) 0 0 (width size') (height size') 1)
           \<in> set tr \<and>
         RunLoop (registerWindow (plugParentWindow window) PlugCb) \<in> set tr \<and>
         RunLoop (registerWindow (xWindow window) MainWindowCb) \<in> set tr)) \<and>
   (XInternAtom_ret env ''_XEMBED_INFO'' True \<noteq> None_atom \<and> \<not> XMatchVisualInfo_ret env \<longrightarrow>
      fst (init env s name size' resizeable ctl display closedFunc) = Inl (Exit (- 1)) \<and>
      fst (make env name size' resizeable ctl display closedFunc) = Inl (Exit (- 1)))"
proof (intro conjI impI)
  show "fst (init env s name size' resizeable ctl display closedFunc) = Inr False \<longleftrightarrow>
      XInternAtom_ret env ''_XEMBED_INFO'' True = None_atom"
    by (simp add: init_def resize_def Let_def)
next
  show "fst (make env name size' resizeable ctl display closedFunc) = Inr None \<longleftrightarrow>
      XInternAtom_ret env ''_XEMBED_INFO'' True = None_atom"
    by (simp add: make_def init_def resize_def Let_def)
next
  assume "XInternAtom_ret env ''_XEMBED_INFO'' True \<noteq> None_atom \<and> XMatchVisualInfo_ret env"
  then show "\<exists>window tr.
         make env name size' resizeable ctl display closedFunc = (Inr (Some window), tr) \<and>
         init env Impl_new name size' resizeable ctl display closedFunc =
           (Inr True, window, tr) \<and>
         xWindow window = XCreateWindow_ret env (RootWindow_ret env) \<and>
         plugParentWindow window = XCreateWindow_ret env (xWindow window) \<and>
         Xlib display
           (XCreateWindow (RootWindow_ret env) 0 0 (DisplayWidth_ret env)
              (DisplayHeight_ret env) 1) \<in> set tr \<and>
         Xlib display (XCreateWindow (xWindow window) 0 0 (width size') (height size') 1)
           \<in> set tr \<and>
         RunLoop (registerWindow (plugParentWindow window) PlugCb) \<in> set tr \<and>
         RunLoop (registerWindow (xWindow window) MainWindowCb) \<in> set tr"
    by (simp add: make_def init_def resize_def Let_def)
next
  assume a: "XInternAtom_ret env ''_XEMBED_INFO'' True \<noteq> None_atom \<and> \<not> XMatchVisualInfo_ret env"
  then show "fst (init env s name size' resizeable ctl display closedFunc) = Inl (Exit (- 1))"
    by (simp add: init_def Let_def)
  from a show "fst (make env name size' resizeable ctl display closedFunc) = Inl (Exit (- 1))"
    by (simp add: make_def init_def Let_def)
qed

theorem init_result_witness:
  "make ex_env ''plug'' \<lparr>width = 3, height = 4\<rparr> True (Some 1) (Some 2) None =
     (Inr (Some ex_ready), ex_init_trace) \<and>
   xWindow ex_ready = 101 \<and> plugParentWindow ex_ready = 201 \<and>
   Xlib (Some 2) (XCreateWindow 1 0 0 1920 1080 1) \<in> set ex_init_trace \<and>
   Xlib (Some 2) (XCreateWindow 101 0 0 3 4 1) \<in> set ex_init_trace \<and>
   RunLoop (registerWindow 201 PlugCb) \<in> set ex_init_trace \<and>
   RunLoop (registerWindow 101 MainWindowCb) \<in> set ex_init_trace \<and>
   fst (make ex_env_novisual ''plug'' \<lparr>width = 3, height = 4\<rparr> True (Some 1) (Some 2) None) =
     Inl (Exit (- 1)) \<and>
   fst (make (ex_env\<lparr>XInternAtom_ret := (\<lambda>n e. None_atom)\<rparr>) ''plug''
          \<lparr>width = 3, height = 4\<rparr> True (Some 1) (Some 2) None) = Inr None"
proof -
  have a: "XInternAtom_ret ex_env ''_XEMBED_INFO'' True \<noteq> None_atom \<and>
      XMatchVisualInfo_ret ex_env"
    by (simp add: ex_env_def None_atom_def)
  have i: "init ex_env Impl_new ''plug'' \<lparr>width = 3, height = 4\<rparr> True (Some 1) (Some 2) None =
      (fst (init ex_env Impl_new ''plug'' \<lparr>width = 3, height = 4\<rparr> True (Some 1) (Some 2) None),
       ex_ready, ex_init_trace)"
    by (simp add: ex_ready_def ex_init_trace_def)
  from init_result [where env = ex_env and name = "''plug''"
      and size' = "\<lparr>width = 3, height = 4\<rparr>" and resizeable = True and ctl = "Some 1"
      and display = "Some 2" and closedFunc = None] a
  obtain window tr where
    m: "make ex_env ''plug'' \<lparr>width = 3, height = 4\<rparr> True (Some 1) (Some 2) None =
        (Inr (Some window), tr)"
    and n: "init ex_env Impl_new ''plug'' \<lparr>width = 3, height = 4\<rparr> True (Some 1) (Some 2) None =
        (Inr True, window, tr)"
    and c1: "Xlib (Some 2)
        (XCreateWindow (RootWindow_ret ex_env) 0 0 (DisplayWidth_ret ex_env)
           (DisplayHeight_ret ex_env) 1) \<in> set tr"
    and c2: "Xlib (Some 2)
        (XCreateWindow (xWindow window) 0 0 (width \<lparr>width = 3, height = 4\<rparr>)
           (height \<lparr>width = 3, height = 4\<rparr>) 1) \<in> set tr"
    and c3: "RunLoop (registerWindow (plugParentWindow window) PlugCb) \<in> set tr"
    and c4: "RunLoop (registerWindow (xWindow window) MainWindowCb) \<in> set tr"
    by blast
  from n i have w: "window = ex_ready" and t: "tr = ex_init_trace" by simp_all
  from m c1 c2 c3 c4
  have 1: "make ex_env ''plug'' \<lparr>width = 3, height = 4\<rparr> True (Some 1) (Some 2) None =
       (Inr (Some ex_ready), ex_init_trace) \<and>
     Xlib (Some 2) (XCreateWindow 1 0 0 1920 1080 1) \<in> set ex_init_trace \<and>
     Xlib (Some 2) (XCreateWindow 101 0 0 3 4 1) \<in> set ex_init_trace \<and>
     RunLoop (registerWindow 201 PlugCb) \<in> set ex_init_trace \<and>
     RunLoop (registerWindow 101 MainWindowCb) \<in> set ex_init_trace"
    unfolding w t by (simp add: ex_ready_eq ex_env_def)
  have b: "XInternAtom_ret ex_env_novisual ''_XEMBED_INFO'' True \<noteq> None_atom \<and>
      \<not> XMatchVisualInfo_ret ex_env_novisual"
    by (simp add: ex_env_novisual_def ex_env_def None_atom_def)
  from init_result [where env = ex_env_novisual and name = "''plug''"
      and size' = "\<lparr>width = 3, height = 4\<rparr>" and resizeable = True and ctl = "Some 1"
      and display = "Some 2" and closedFunc = None] b
  have 2: "fst (make ex_env_novisual ''plug'' \<lparr>width = 3, height = 4\<rparr> True (Some 1) (Some 2)
      None) = Inl (Exit (- 1))"
    by blast
  from init_result [where env = "ex_env\<lparr>XInternAtom_ret := (\<lambda>n e. None_atom)\<rparr>"
      and name = "''plug''" and size' = "\<lparr>width = 3, height = 4\<rparr>" and resizeable = True
      and ctl = "Some 1" and display = "Some 2" and closedFunc = None]
  have 3: "fst (make (ex_env\<lparr>XInternAtom_ret := (\<lambda>n e. None_atom)\<rparr>) ''plug''
      \<lparr>width = 3, height = 4\<rparr> True (Some 1) (Some 2) None) = Inr None"
    by simp
  from 1 2 3 show ?thesis by (simp add: ex_ready_eq)
qed

text \<open>
  C7, as the claim has it, fails: on a display where the atom exists but no visual
  matches, \<open>make\<close> returns neither a window nor the null pointer.
\<close>

theorem init_exit_counterexample:
  "XInternAtom_ret ex_env_novisual ''_XEMBED_INFO'' True = 11 \<and>
   fst (init ex_env_novisual Impl_new ''plug'' \<lparr>width = 3, height = 4\<rparr> True (Some 1) (Some 2)
     None) = Inl (Exit (- 1)) \<and>
   make ex_env_novisual ''plug'' \<lparr>width = 3, height = 4\<rparr> True (Some 1) (Some 2) None =
     (Inl (Exit (- 1)), [Xlib (Some 2) (XInternAtom ''_XEMBED_INFO'' True)])"
  by (simp add: make_def init_def ex_env_novisual_def ex_env_def Impl_new_def None_atom_def
      Let_def)

text \<open>
  C8. \<open>registerEventHandler\<close> returns \<open>kInvalidArgument\<close> exactly when the handler is
  null or the descriptor is already a key of \<open>eventHandlers\<close>; otherwise it registers
  the descriptor with the run loop, stores the handler under it and returns
  \<open>kResultTrue\<close>. \<open>registerTimer\<close> returns \<open>kInvalidArgument\<close> exactly when the handler
  is null or the interval is 0; otherwise it registers the timer with the run loop,
  emplaces the handler under the identifier the run loop returned and returns
  \<open>kResultTrue\<close>.
\<close>

theorem register_results:
  "(fst (registerEventHandler s handler fd) = kInvalidArgument \<longleftrightarrow>
      handler = None \<or> fd \<in> fst ` set (eventHandlers s)) \<and>
   (handler = Some h \<and> fd \<notin> fst ` set (eventHandlers s) \<longrightarrow>
      registerEventHandler s handler fd =
        (kResultTrue, s\<lparr>eventHandlers := eventHandlers s @ [(fd, h)]\<rparr>,
         [RunLoop (registerFileDescriptor fd h)]) \<and>
      map_of (eventHandlers (fst (snd (registerEventHandler s handler fd)))) fd = Some h) \<and>
   (fst (registerTimer env s thandler milliseconds) = kInvalidArgument \<longleftrightarrow>
      thandler = None \<or> milliseconds = 0) \<and>
   (thandler = Some th \<and> milliseconds \<noteq> 0 \<longrightarrow>
      registerTimer env s thandler milliseconds =
        (kResultTrue,
         s\<lparr>timerHandlers := emplace (registerTimer_ret env milliseconds) th (timerHandlers s)\<rparr>,
         [RunLoop (registerTimer_rl milliseconds th)]) \<and>
      (registerTimer_ret env milliseconds \<notin> fst ` set (timerHandlers s) \<longrightarrow>
         map_of (timerHandlers (fst (snd (registerTimer env s thandler milliseconds))))
           (registerTimer_ret env milliseconds) = Some th))"
proof (intro conjI impI)
  show "fst (registerEventHandler s handler fd) = kInvalidArgument \<longleftrightarrow>
      handler = None \<or> fd \<in> fst ` set (eventHandlers s)"
    by (cases handler) (auto simp: registerEventHandler_def map_of_eq_None_iff)
next
  assume a: "handler = Some h \<and> fd \<notin> fst ` set (eventHandlers s)"
  then have n: "map_of (eventHandlers s) fd = None" by (simp add: map_of_eq_None_iff)
  with a show r: "registerEventHandler s handler fd =
      (kResultTrue, s\<lparr>eventHandlers := eventHandlers s @ [(fd, h)]\<rparr>,
       [RunLoop (registerFileDescriptor fd h)])"
    by (simp add: registerEventHandler_def emplace_def)
  from n show "map_of (eventHandlers (fst (snd (registerEventHandler s handler fd)))) fd = Some h"
    by (simp add: r map_add_def)
next
  show "fst (registerTimer env s thandler milliseconds) = kInvalidArgument \<longleftrightarrow>
      thandler = None \<or> milliseconds = 0"
    by (cases thandler) (auto simp: registerTimer_def)
next
  assume a: "thandler = Some th \<and> milliseconds \<noteq> 0"
  then show r: "registerTimer env s thandler milliseconds =
      (kResultTrue,
       s\<lparr>timerHandlers := emplace (registerTimer_ret env milliseconds) th (timerHandlers s)\<rparr>,
       [RunLoop (registerTimer_rl milliseconds th)])"
    by (simp add: registerTimer_def)
  assume "registerTimer_ret env milliseconds \<notin> fst ` set (timerHandlers s)"
  then have "map_of (timerHandlers s) (registerTimer_ret env milliseconds) = None"
    by (simp add: map_of_eq_None_iff)
  then show "map_of (timerHandlers (fst (snd (registerTimer env s thandler milliseconds))))
      (registerTimer_ret env milliseconds) = Some th"
    by (simp add: r map_of_emplace)
qed

theorem register_results_witness:
  "registerEventHandler ex_ready (Some 8) 3 =
     (kResultTrue, ex_ready\<lparr>eventHandlers := [(3, 8)]\<rparr>, [RunLoop (registerFileDescriptor 3 8)]) \<and>
   fst (registerEventHandler ex_registered (Some 8) 3) = kInvalidArgument \<and>
   fst (registerEventHandler ex_ready None 3) = kInvalidArgument \<and>
   registerTimer ex_env ex_ready (Some 9) 50 =
     (kResultTrue, ex_ready\<lparr>timerHandlers := [(1, 9)]\<rparr>, [RunLoop (registerTimer_rl 50 9)]) \<and>
   fst (registerTimer ex_env ex_ready (Some 9) 0) = kInvalidArgument \<and>
   fst (registerTimer ex_env ex_ready None 50) = kInvalidArgument"
proof -
  have a: "Some 8 = Some (8::nat) \<and> (3::int) \<notin> fst ` set (eventHandlers ex_ready)"
    by (simp add: ex_ready_eq)
  have b: "Some 9 = Some (9::nat) \<and> (50::64 word) \<noteq> 0" by simp
  have c: "registerTimer_ret ex_env 50 \<notin> fst ` set (timerHandlers ex_ready)"
    by (simp add: ex_ready_eq)
  from register_results [where s = ex_ready and handler = "Some 8" and fd = 3 and h = 8
      and env = ex_env and thandler = "Some 9" and milliseconds = 50 and th = 9] a b c
  have 1: "registerEventHandler ex_ready (Some 8) 3 =
      (kResultTrue, ex_ready\<lparr>eventHandlers := [(3, 8)]\<rparr>, [RunLoop (registerFileDescriptor 3 8)])"
    and 2: "registerTimer ex_env ex_ready (Some 9) 50 =
      (kResultTrue, ex_ready\<lparr>timerHandlers := [(1, 9)]\<rparr>, [RunLoop (registerTimer_rl 50 9)])"
    by (simp_all add: ex_ready_eq emplace_def ex_env_def)
  from register_results [where s = ex_registered and handler = "Some 8" and fd = 3
      and env = ex_env and thandler = "Some 9" and milliseconds = 0]
  have 3: "fst (registerEventHandler ex_registered (Some 8) 3) = kInvalidArgument"
    and 4: "fst (registerTimer ex_env ex_registered (Some 9) 0) = kInvalidArgument"
    by (simp_all add: ex_registered_eq)
  from register_results [where s = ex_ready and handler = None and fd = 3
      and env = ex_env and thandler = None and milliseconds = 50]
  have 5: "fst (registerEventHandler ex_ready None 3) = kInvalidArgument"
    and 6: "fst (registerTimer ex_env ex_ready None 50) = kInvalidArgument"
    by simp_all
  from register_results [where s = ex_ready and handler = "Some 8" and fd = 3
      and env = ex_env and thandler = "Some 9" and milliseconds = 0]
  have 7: "fst (registerTimer ex_env ex_ready (Some 9) 0) = kInvalidArgument"
    by simp
  from 1 2 3 5 6 7 show ?thesis by simp
qed

text \<open>
  C9. For a handler that is the value of no entry, \<open>unregisterEventHandler\<close> returns
  \<open>kResultFalse\<close> and \<open>unregisterTimer\<close> returns \<open>kNotImplemented\<close>, both with the
  state unchanged and nothing done. For a handler that is the value of an entry, both
  erase exactly one entry with that value, unregister its key with the run loop and
  return \<open>kResultTrue\<close>.
\<close>

theorem unregister_results:
  "(h \<notin> snd ` set (eventHandlers s) \<longrightarrow>
      unregisterEventHandler s (Some h) = (kResultFalse, s, [])) \<and>
   (h \<notin> snd ` set (timerHandlers s) \<longrightarrow>
      unregisterTimer s (Some h) = (kNotImplemented, s, [])) \<and>
   (h \<in> snd ` set (eventHandlers s) \<longrightarrow>
      (\<exists>fd. (fd, h) \<in> set (eventHandlers s) \<and>
         unregisterEventHandler s (Some h) =
           (kResultTrue, s\<lparr>eventHandlers := remove1 (fd, h) (eventHandlers s)\<rparr>,
            [RunLoop (unregisterFileDescriptor fd)]))) \<and>
   (h \<in> snd ` set (timerHandlers s) \<longrightarrow>
      (\<exists>tid. (tid, h) \<in> set (timerHandlers s) \<and>
         unregisterTimer s (Some h) =
           (kResultTrue, s\<lparr>timerHandlers := remove1 (tid, h) (timerHandlers s)\<rparr>,
            [RunLoop (unregisterTimer_rl tid)])))"
proof (intro conjI impI)
  assume "h \<notin> snd ` set (eventHandlers s)"
  then have "erase_first h (eventHandlers s) = None" by (simp add: erase_first_None)
  then show "unregisterEventHandler s (Some h) = (kResultFalse, s, [])"
    by (simp add: unregisterEventHandler_def)
next
  assume "h \<notin> snd ` set (timerHandlers s)"
  then have "erase_first h (timerHandlers s) = None" by (simp add: erase_first_None)
  then show "unregisterTimer s (Some h) = (kNotImplemented, s, [])"
    by (simp add: unregisterTimer_def)
next
  assume "h \<in> snd ` set (eventHandlers s)"
  then have "erase_first h (eventHandlers s) \<noteq> None" by (simp add: erase_first_None)
  then obtain fd rest where e: "erase_first h (eventHandlers s) = Some (fd, rest)" by auto
  from erase_first_Some [OF e] e
  show "\<exists>fd. (fd, h) \<in> set (eventHandlers s) \<and>
      unregisterEventHandler s (Some h) =
        (kResultTrue, s\<lparr>eventHandlers := remove1 (fd, h) (eventHandlers s)\<rparr>,
         [RunLoop (unregisterFileDescriptor fd)])"
    by (auto simp: unregisterEventHandler_def)
next
  assume "h \<in> snd ` set (timerHandlers s)"
  then have "erase_first h (timerHandlers s) \<noteq> None" by (simp add: erase_first_None)
  then obtain tid rest where e: "erase_first h (timerHandlers s) = Some (tid, rest)" by auto
  from erase_first_Some [OF e] e
  show "\<exists>tid. (tid, h) \<in> set (timerHandlers s) \<and>
      unregisterTimer s (Some h) =
        (kResultTrue, s\<lparr>timerHandlers := remove1 (tid, h) (timerHandlers s)\<rparr>,
         [RunLoop (unregisterTimer_rl tid)])"
    by (auto simp: unregisterTimer_def)
qed

theorem unregister_results_witness:
  "unregisterEventHandler ex_registered (Some 77) = (kResultFalse, ex_registered, []) \<and>
   unregisterTimer ex_registered (Some 77) = (kNotImplemented, ex_registered, []) \<and>
   unregisterEventHandler ex_registered (Some 8) =
     (kResultTrue, ex_registered\<lparr>eventHandlers := []\<rparr>, [RunLoop (unregisterFileDescriptor 3)]) \<and>
   unregisterTimer ex_registered (Some 9) =
     (kResultTrue, ex_registered\<lparr>timerHandlers := []\<rparr>, [RunLoop (unregisterTimer_rl 1)])"
proof -
  from unregister_results [of 77 ex_registered]
  have 1: "unregisterEventHandler ex_registered (Some 77) = (kResultFalse, ex_registered, [])"
    and 2: "unregisterTimer ex_registered (Some 77) = (kNotImplemented, ex_registered, [])"
    by (simp_all add: ex_registered_eq)
  from unregister_results [of 8 ex_registered]
  have 3: "unregisterEventHandler ex_registered (Some 8) =
      (kResultTrue, ex_registered\<lparr>eventHandlers := []\<rparr>, [RunLoop (unregisterFileDescriptor 3)])"
    by (auto simp: ex_registered_eq)
  from unregister_results [of 9 ex_registered]
  have 4: "unregisterTimer ex_registered (Some 9) =
      (kResultTrue, ex_registered\<lparr>timerHandlers := []\<rparr>, [RunLoop (unregisterTimer_rl 1)])"
    by (auto simp: ex_registered_eq)
  from 1 2 3 4 show ?thesis by simp
qed

text \<open>
  C10. A \<open>MapNotify\<close> for the main window calls \<^verbatim>\<open>onShow\<close> and sets \<open>isMapped\<close> when
  \<open>isMapped\<close> is false (and the controller is there to be called); when \<open>isMapped\<close> is
  true it does nothing. \<open>onClose\<close> resets \<open>isMapped\<close>. In every sequence of calls
  during which the window is not closed, \<^verbatim>\<open>onShow\<close> is called exactly once if the
  window went from unmapped to mapped and not at all otherwise, so at most once.
\<close>

theorem onShow_once_per_mapped_period:
  "(controller s = Some ctl \<and> \<not> isMapped s \<longrightarrow>
      handleMainWindowEvent env s (MapNotify (xWindow s)) =
        (Inr True, s\<lparr>isMapped := True\<rparr>, [Controller onShow])) \<and>
   (isMapped s \<longrightarrow> handleMainWindowEvent env s (MapNotify w) = (Inr False, s, [])) \<and>
   \<not> isMapped (fst (onClose s)) \<and>
   (run s cs = (r, s', tr) \<and> Controller onClose_ctl \<notin> set tr \<longrightarrow>
      count_list tr (Controller onShow) \<le> 1 \<and>
      count_list tr (Controller onShow) = (if isMapped s' \<and> \<not> isMapped s then 1 else 0))"
proof (intro conjI impI)
  assume "controller s = Some ctl \<and> \<not> isMapped s"
  then show "handleMainWindowEvent env s (MapNotify (xWindow s)) =
      (Inr True, s\<lparr>isMapped := True\<rparr>, [Controller onShow])"
    by (simp add: handleMainWindowEvent_def)
next
  assume "isMapped s"
  then show "handleMainWindowEvent env s (MapNotify w) = (Inr False, s, [])"
    by (simp add: handleMainWindowEvent_def)
next
  show "\<not> isMapped (fst (onClose s))" by (simp add: onClose_def)
next
  assume a: "run s cs = (r, s', tr) \<and> Controller onClose_ctl \<notin> set tr"
  then have "count_list tr (Controller onShow) = (if isMapped s' \<and> \<not> isMapped s then 1 else 0)"
    using run_mapped [of s cs r s' tr] by blast
  then show "count_list tr (Controller onShow) \<le> 1"
    and "count_list tr (Controller onShow) = (if isMapped s' \<and> \<not> isMapped s then 1 else 0)"
    by (simp_all split: if_splits)
qed

theorem onShow_once_per_mapped_period_witness:
  "controller ex_ready = Some 1 \<and> \<not> isMapped ex_ready \<and>
   handleMainWindowEvent ex_env ex_ready (MapNotify (xWindow ex_ready)) =
     (Inr True, ex_ready\<lparr>isMapped := True\<rparr>, [Controller onShow]) \<and>
   handleMainWindowEvent ex_env (ex_ready\<lparr>isMapped := True\<rparr>) (MapNotify 101) =
     (Inr False, ex_ready\<lparr>isMapped := True\<rparr>, []) \<and>
   run ex_ready ex_mapping_calls = (None, ex_ready\<lparr>isMapped := True\<rparr>, [Controller onShow]) \<and>
   count_list [Controller onShow] (Controller onShow) \<le> 1"
proof -
  have a: "controller ex_ready = Some 1 \<and> \<not> isMapped ex_ready"
    by (simp add: ex_ready_eq)
  have b: "isMapped (ex_ready\<lparr>isMapped := True\<rparr>)" by simp
  have c: "Controller onClose_ctl \<notin> set [Controller onShow]" by simp
  from onShow_once_per_mapped_period [where s = ex_ready and ctl = 1 and env = ex_env
      and cs = ex_mapping_calls and r = None and s' = "ex_ready\<lparr>isMapped := True\<rparr>"
      and tr = "[Controller onShow]"] a ex_mapping_run c
  have 1: "handleMainWindowEvent ex_env ex_ready (MapNotify (xWindow ex_ready)) =
      (Inr True, ex_ready\<lparr>isMapped := True\<rparr>, [Controller onShow])"
    and 2: "count_list [Controller onShow] (Controller onShow) \<le> 1"
    by blast+
  from onShow_once_per_mapped_period [where s = "ex_ready\<lparr>isMapped := True\<rparr>"
      and env = ex_env and w = 101] b
  have 3: "handleMainWindowEvent ex_env (ex_ready\<lparr>isMapped := True\<rparr>) (MapNotify 101) =
      (Inr False, ex_ready\<lparr>isMapped := True\<rparr>, [])"
    by blast
  from a 1 2 3 ex_mapping_run show ?thesis by simp
qed

end
